theory Spec2Isabelle
  imports Complex_Main "HOL-Library.Word" "HOL-Library.Stream"
begin

unbundle bit_operations_syntax

section \<open>Span context (spancontext.go)\<close>

subsection \<open>Strings and helpers from outside the file\<close>

text \<open>
  A Go \<^verbatim>\<open>string\<close> is a sequence of bytes; it is a list of characters here, one per byte.

  Modelled from the spec: \<^verbatim>\<open>truncateString\<close> and \<^verbatim>\<open>truncateLongString\<close> are not defined in
  the files at hand. The spec says that string fields are truncated to fixed length bounds,
  a short bound for ordinary fields and a longer bound for free-text fields like
  statements; the comment of \<^verbatim>\<open>SetLabel\<close> gives the short bound, 1024 characters. The long
  bound is taken to be 10000; no property below depends on its value.
\<close>

definition truncateString :: "string \<Rightarrow> string" where
  "truncateString s = take 1024 s"

definition truncateLongString :: "string \<Rightarrow> string" where
  "truncateLongString s = take 10000 s"

text \<open>
  Label values. The comment of \<^verbatim>\<open>SetLabel\<close>: a numerical or boolean value is sent as a JSON
  number or boolean, anything else is converted to a string, and string values longer than
  1024 characters are truncated. Invalid characters (\<^verbatim>\<open>.\<close>, \<^verbatim>\<open>*\<close> and the double quote) in the
  key are replaced with underscores.

  Modelled from the spec: \<^verbatim>\<open>cleanLabelKey\<close> and \<^verbatim>\<open>makeLabelValue\<close> are defined outside the
  files at hand and follow that comment here.
\<close>

datatype LabelValue = LabelString string | LabelNumber int | LabelBool bool

definition cleanLabelKey :: "string \<Rightarrow> string" where
  "cleanLabelKey k =
     map (\<lambda>c. if c = CHR ''.'' \<or> c = CHR ''*'' \<or> c = CHR 0x22 then CHR ''_'' else c) k"

fun makeLabelValue :: "LabelValue \<Rightarrow> LabelValue" where
  "makeLabelValue (LabelString s) = LabelString (truncateString s)"
| "makeLabelValue v = v"

text \<open>
  \<^verbatim>\<open>strings.LastIndexByte(s, c)\<close>: the index of the last \<^verbatim>\<open>c\<close> in \<^verbatim>\<open>s\<close>, or -1 (\<open>None\<close>
  here) when there is none.
\<close>

fun LastIndexByte :: "string \<Rightarrow> char \<Rightarrow> nat option" where
  "LastIndexByte [] c = None"
| "LastIndexByte (x # xs) c =
     (case LastIndexByte xs c of
        Some i \<Rightarrow> Some (Suc i)
      | None \<Rightarrow> if x = c then Some 0 else None)"

text \<open>The decimal digits of a number, as \<^verbatim>\<open>%d\<close> of \<^verbatim>\<open>fmt.Sprintf\<close> prints them.\<close>

fun digits_of :: "nat \<Rightarrow> string" where
  "digits_of n =
     (if n < 10 then [''0123456789'' ! n]
      else digits_of (n div 10) @ [''0123456789'' ! (n mod 10)])"

definition Sprintf_d :: "int \<Rightarrow> string" where
  "Sprintf_d i = (if i < 0 then CHR ''-'' # digits_of (nat (- i)) else digits_of (nat i))"

text \<open>
  \<^verbatim>\<open>strconv.Atoi\<close> on the text of a port, as far as \<^verbatim>\<open>DestinationAddr\<close> needs it: a
  non-empty run of decimal digits is the number it writes, anything else is an error, which
  \<^verbatim>\<open>DestinationAddr\<close> turns into port 0.
\<close>

definition is_digit :: "char \<Rightarrow> bool" where
  "is_digit c = (48 \<le> (of_char c :: nat) \<and> (of_char c :: nat) \<le> 57)"

definition port_of_digits :: "string \<Rightarrow> int" where
  "port_of_digits s =
     (if s \<noteq> [] \<and> list_all is_digit s
      then foldl (\<lambda>acc c. 10 * acc + (int (of_char c) - 48)) 0 s
      else 0)"

subsection \<open>URLs and requests\<close>

text \<open>
  The fields of \<^verbatim>\<open>url.URL\<close> that \<^verbatim>\<open>SetHTTPRequest\<close> reads or stores. \<^verbatim>\<open>Host\<close> is
  \<^verbatim>\<open>host\<close> or \<^verbatim>\<open>host:port\<close>; the credentials of a URL are in \<^verbatim>\<open>User\<close>, apart from the
  host. For \<^verbatim>\<open>https://example.com:443/x\<close> the fields are \<^verbatim>\<open>Scheme = "https"\<close>,
  \<^verbatim>\<open>Host = "example.com:443"\<close> and \<^verbatim>\<open>Path = "/x"\<close>.
\<close>

record URL =
  Scheme :: string
  User :: "string option"
  Host :: string
  Path :: string

text \<open>An \<^verbatim>\<open>http.Request\<close>: only its \<^verbatim>\<open>URL\<close> pointer is read, which may be \<^verbatim>\<open>nil\<close>.\<close>

record Request =
  req_URL :: "URL option"

text \<open>
  \<^verbatim>\<open>url.URL.String()\<close> for a URL that has only a scheme and a host, which is all that
  \<^verbatim>\<open>SetHTTPRequest\<close> prints: \<^verbatim>\<open>scheme:\<close> when the scheme is not empty, then \<^verbatim>\<open>//host\<close>
  when the host is not empty. (Go percent-encodes the bytes that no host may hold; the
  hosts here hold none.)
\<close>

definition URL_String :: "string \<Rightarrow> string \<Rightarrow> string" where
  "URL_String scheme host =
     (if scheme \<noteq> [] then scheme @ '':'' else []) @ (if host \<noteq> [] then ''//'' @ host else [])"

text \<open>
  Modelled from the spec: \<^verbatim>\<open>apmhttputil.SchemeDefaultPort\<close> and
  \<^verbatim>\<open>apmhttputil.DestinationAddr\<close> are defined outside the files at hand. The spec: capturing
  an HTTP request derives the destination address and port from the request authority, and
  a port may equal the scheme's default. The default port is 80 for \<^verbatim>\<open>http\<close>, 443 for
  \<^verbatim>\<open>https\<close> and 0 (none) for any other scheme. The address is the host without its port
  (and without the brackets of an IPv6 literal); the port is the one the authority names,
  and the default port of the scheme when it names none.
\<close>

definition SchemeDefaultPort :: "string \<Rightarrow> int" where
  "SchemeDefaultPort scheme =
     (if scheme = ''http'' then 80 else if scheme = ''https'' then 443 else 0)"

definition strip_brackets :: "string \<Rightarrow> string" where
  "strip_brackets h =
     (if 1 < length h \<and> hd h = CHR ''['' \<and> last h = CHR '']'' then butlast (tl h) else h)"

definition DestinationAddr :: "URL \<Rightarrow> string \<times> int" where
  "DestinationAddr u =
     (let h = Host u in
      case (if h \<noteq> [] \<and> last h = CHR '']'' then None else LastIndexByte h (CHR '':'')) of
        None \<Rightarrow> (strip_brackets h, SchemeDefaultPort (Scheme u))
      | Some i \<Rightarrow> (strip_brackets (take i h), port_of_digits (drop (Suc i) h)))"

subsection \<open>The structures of package \<^verbatim>\<open>model\<close>\<close>

text \<open>
  The types of package \<^verbatim>\<open>model\<close> are declared outside the files at hand; their fields are
  read off the assignments of spancontext.go. Every pointer field of these structures is
  either \<^verbatim>\<open>nil\<close> or, after a setter ran, the address of the sibling field of the same
  \<^verbatim>\<open>SpanContext\<close> (\<^verbatim>\<open>c.model.HTTP = &c.http\<close>): such a pointer is a \<open>bool\<close> here,
  \<open>True\<close> for ``points at the sibling field'', whose current content is what the pointer
  shows. \<^verbatim>\<open>message.Queue\<close> points at a structure of its own and is an option.
\<close>

record IfaceMapItem =
  Key :: string
  Value :: LabelValue

record model_SpanContext =
  Tags :: "IfaceMapItem list"
  Message :: bool
  Database :: bool
  HTTP :: bool
  Destination :: bool
  Service :: bool

record model_DestinationSpanContext =
  Address :: string
  Port :: int
  dest_Service :: bool
  dest_Cloud :: bool

record model_DestinationServiceSpanContext =
  dsvc_Name :: string
  dsvc_Resource :: string

record model_ServiceSpanContext =
  Target :: bool

record model_ServiceTargetSpanContext =
  target_Type :: string
  target_Name :: string

record model_DestinationCloudSpanContext =
  cloud_Region :: string

record model_MessageSpanContext =
  Queue :: "string option"

record model_DatabaseSpanContext =
  db_Instance :: string
  db_Statement :: string
  db_Type :: string
  db_User :: string
  RowsAffected :: bool

record model_HTTPSpanContext =
  http_URL :: "URL option"
  StatusCode :: int

record model_OTel =
  Attributes :: "string \<rightharpoonup> LabelValue"
  SpanKind :: string

subsection \<open>\<^verbatim>\<open>SpanContext\<close> and the arguments of its setters\<close>

text \<open>
  \<^verbatim>\<open>type SpanContext struct\<close>, field by field. The fields \<^verbatim>\<open>destination\<close>, \<^verbatim>\<open>message\<close>,
  \<^verbatim>\<open>database\<close>, \<^verbatim>\<open>service\<close> and \<^verbatim>\<open>http\<close> carry the prefix \<open>c_\<close>. The structures that the
  setters take as arguments follow; their fields carry the prefix \<open>arg_\<close>.
\<close>

record SpanContext =
  model :: model_SpanContext
  c_destination :: model_DestinationSpanContext
  destinationService :: model_DestinationServiceSpanContext
  c_service :: model_ServiceSpanContext
  serviceTarget :: model_ServiceTargetSpanContext
  destinationCloud :: model_DestinationCloudSpanContext
  c_message :: model_MessageSpanContext
  databaseRowsAffected :: "64 word"
  c_database :: model_DatabaseSpanContext
  c_http :: model_HTTPSpanContext
  otel :: "model_OTel option"
  setDestinationServiceCalled :: bool

record DatabaseSpanContext =
  arg_Instance :: string
  arg_Statement :: string
  arg_Type :: string
  arg_User :: string

record ServiceTargetSpanContext =
  arg_target_Type :: string
  arg_target_Name :: string

record DestinationServiceSpanContext =
  arg_Name :: string
  arg_Resource :: string

record DestinationCloudSpanContext =
  arg_Region :: string

record MessageSpanContext =
  QueueName :: string

text \<open>The zero value of each structure, and of \<^verbatim>\<open>SpanContext\<close>: every pointer \<^verbatim>\<open>nil\<close>.\<close>

definition zero_model_SpanContext :: model_SpanContext where
  "zero_model_SpanContext =
     \<lparr>Tags = [], Message = False, Database = False, HTTP = False, Destination = False,
      Service = False\<rparr>"

definition zero_SpanContext :: SpanContext where
  "zero_SpanContext =
     \<lparr>model = zero_model_SpanContext,
      c_destination = \<lparr>Address = [], Port = 0, dest_Service = False, dest_Cloud = False\<rparr>,
      destinationService = \<lparr>dsvc_Name = [], dsvc_Resource = []\<rparr>,
      c_service = \<lparr>Target = False\<rparr>,
      serviceTarget = \<lparr>target_Type = [], target_Name = []\<rparr>,
      destinationCloud = \<lparr>cloud_Region = []\<rparr>,
      c_message = \<lparr>Queue = None\<rparr>,
      databaseRowsAffected = 0,
      c_database = \<lparr>db_Instance = [], db_Statement = [], db_Type = [], db_User = [],
                    RowsAffected = False\<rparr>,
      c_http = \<lparr>http_URL = None, StatusCode = 0\<rparr>,
      otel = None,
      setDestinationServiceCalled = False\<rparr>"

subsection \<open>\<^verbatim>\<open>build\<close>, \<^verbatim>\<open>reset\<close> and the setters\<close>

text \<open>
  \<^verbatim>\<open>
  func (c *SpanContext) build() *model.SpanContext {
      switch {
      case len(c.model.Tags) != 0:
      case c.model.Message != nil:
      case c.model.Database != nil:
      case c.model.HTTP != nil:
      case c.model.Destination != nil:
      default:
          return nil
      }
      return &c.model
  }
  \<close>
  \<open>None\<close> is \<^verbatim>\<open>nil\<close>; otherwise the result is the structure \<^verbatim>\<open>c.model\<close> that the pointer
  shows.
\<close>

definition build :: "SpanContext \<Rightarrow> model_SpanContext option" where
  "build c =
     (if length (Tags (model c)) \<noteq> 0 then Some (model c)
      else if Message (model c) then Some (model c)
      else if Database (model c) then Some (model c)
      else if HTTP (model c) then Some (model c)
      else if Destination (model c) then Some (model c)
      else None)"

text \<open>
  \<^verbatim>\<open>reset\<close>: \<^verbatim>\<open>*c = SpanContext{model: model.SpanContext{Tags: c.model.Tags[:0]}}\<close>. The
  slice keeps its storage and has length 0.
\<close>

definition SpanContext_reset :: "SpanContext \<Rightarrow> SpanContext" where
  "SpanContext_reset c = zero_SpanContext"

text \<open>
  \<^verbatim>\<open>SetOTelAttributes\<close> and \<^verbatim>\<open>SetOTelSpanKind\<close> allocate \<^verbatim>\<open>c.otel\<close> when it is \<^verbatim>\<open>nil\<close> and
  set one field of it.
\<close>

definition otel_or_new :: "SpanContext \<Rightarrow> model_OTel" where
  "otel_or_new c =
     (case otel c of None \<Rightarrow> \<lparr>Attributes = Map.empty, SpanKind = []\<rparr> | Some ot \<Rightarrow> ot)"

definition SetOTelAttributes :: "SpanContext \<Rightarrow> (string \<rightharpoonup> LabelValue) \<Rightarrow> SpanContext" where
  "SetOTelAttributes c m = c\<lparr>otel := Some ((otel_or_new c)\<lparr>Attributes := m\<rparr>)\<rparr>"

definition SetOTelSpanKind :: "SpanContext \<Rightarrow> string \<Rightarrow> SpanContext" where
  "SetOTelSpanKind c spanKind = c\<lparr>otel := Some ((otel_or_new c)\<lparr>SpanKind := spanKind\<rparr>)\<rparr>"

text \<open>
  \<^verbatim>\<open>SetLabel\<close> appends to \<^verbatim>\<open>c.model.Tags\<close>, without looking for the key among the items
  already there.
\<close>

definition SetLabel :: "SpanContext \<Rightarrow> string \<Rightarrow> LabelValue \<Rightarrow> SpanContext" where
  "SetLabel c k v =
     c\<lparr>model := (model c)\<lparr>Tags := Tags (model c) @
          [\<lparr>Key = cleanLabelKey k, Value = makeLabelValue v\<rparr>]\<rparr>\<rparr>"

text \<open>
  \<^verbatim>\<open>SetDatabase\<close> replaces \<^verbatim>\<open>c.database\<close> (its \<^verbatim>\<open>RowsAffected\<close> pointer becomes \<^verbatim>\<open>nil\<close>
  again) and sets \<^verbatim>\<open>c.model.Database = &c.database\<close>.
\<close>

definition SetDatabase :: "SpanContext \<Rightarrow> DatabaseSpanContext \<Rightarrow> SpanContext" where
  "SetDatabase c db =
     c\<lparr>c_database :=
         \<lparr>db_Instance = truncateString (arg_Instance db),
          db_Statement = truncateLongString (arg_Statement db),
          db_Type = truncateString (arg_Type db),
          db_User = truncateString (arg_User db),
          RowsAffected = False\<rparr>,
       model := (model c)\<lparr>Database := True\<rparr>\<rparr>"

text \<open>
  \<^verbatim>\<open>SetDatabaseRowsAffected\<close> sets \<^verbatim>\<open>c.databaseRowsAffected\<close> and
  \<^verbatim>\<open>c.database.RowsAffected = &c.databaseRowsAffected\<close>; it does not touch \<^verbatim>\<open>c.model\<close>.
\<close>

definition SetDatabaseRowsAffected :: "SpanContext \<Rightarrow> 64 word \<Rightarrow> SpanContext" where
  "SetDatabaseRowsAffected c n =
     c\<lparr>databaseRowsAffected := n, c_database := (c_database c)\<lparr>RowsAffected := True\<rparr>\<rparr>"

text \<open>
  \<^verbatim>\<open>
  func (c *SpanContext) SetDestinationAddress(addr string, port int) {
      if addr != "" {
          c.destination.Address = truncateString(addr)
          c.destination.Port = port
          c.model.Destination = &c.destination
      }
  }
  \<close>
\<close>

definition SetDestinationAddress :: "SpanContext \<Rightarrow> string \<Rightarrow> int \<Rightarrow> SpanContext" where
  "SetDestinationAddress c addr port =
     (if addr \<noteq> []
      then c\<lparr>c_destination := (c_destination c)\<lparr>Address := truncateString addr, Port := port\<rparr>,
             model := (model c)\<lparr>Destination := True\<rparr>\<rparr>
      else c)"

text \<open>
  \<^verbatim>\<open>
  func (c *SpanContext) SetDestinationService(service DestinationServiceSpanContext) {
      c.setDestinationServiceCalled = true
      if service.Resource == "" {
          return
      }
      c.destinationService.Name = truncateString(service.Name)
      c.destinationService.Resource = truncateString(service.Resource)
      c.destination.Service = &c.destinationService
      c.model.Destination = &c.destination
  }
  \<close>
\<close>

definition SetDestinationService :: "SpanContext \<Rightarrow> DestinationServiceSpanContext \<Rightarrow> SpanContext" where
  "SetDestinationService c svc =
     (let c1 = c\<lparr>setDestinationServiceCalled := True\<rparr> in
      if arg_Resource svc = [] then c1
      else c1\<lparr>destinationService :=
                 \<lparr>dsvc_Name = truncateString (arg_Name svc),
                  dsvc_Resource = truncateString (arg_Resource svc)\<rparr>,
              c_destination := (c_destination c1)\<lparr>dest_Service := True\<rparr>,
              model := (model c1)\<lparr>Destination := True\<rparr>\<rparr>)"

text \<open>
  \<^verbatim>\<open>
  func (c *SpanContext) SetHTTPRequest(req *http.Request) {
      if req.URL == nil {
          return
      }
      c.http.URL = req.URL
      c.model.HTTP = &c.http

      addr, port := apmhttputil.DestinationAddr(req)
      c.SetDestinationAddress(addr, port)

      destinationServiceURL := url.URL{Scheme: req.URL.Scheme, Host: req.URL.Host}
      destinationServiceResource := destinationServiceURL.Host
      if port != 0 && port == apmhttputil.SchemeDefaultPort(req.URL.Scheme) {
          var hasDefaultPort bool
          if n := len(destinationServiceURL.Host); n > 0 && destinationServiceURL.Host[n-1] != ']' {
              if i := strings.LastIndexByte(destinationServiceURL.Host, ':'); i != -1 {
                  // Remove the default port from destination.service.name.
                  destinationServiceURL.Host = destinationServiceURL.Host[:i]
                  hasDefaultPort = true
              }
          }
          if !hasDefaultPort {
              // Add the default port to destination.service.resource.
              destinationServiceResource = fmt.Sprintf("%s:%d", destinationServiceResource, port)
          }
      }
      c.SetDestinationService(DestinationServiceSpanContext{
          Name:     destinationServiceURL.String(),
          Resource: destinationServiceResource,
      })
  }
  \<close>
  \<open>destinationService_of\<close> is the part between the call of \<^verbatim>\<open>SetDestinationAddress\<close> and the
  call of \<^verbatim>\<open>SetDestinationService\<close>: from the scheme, the host and the port it computes the
  argument of the latter. The resource starts as the whole \<^verbatim>\<open>Host\<close>, port included, and
  nothing ever removes a port from it.
\<close>

definition destinationService_of :: "string \<Rightarrow> string \<Rightarrow> int \<Rightarrow> DestinationServiceSpanContext" where
  "destinationService_of scheme host port =
     (let destinationServiceResource = host in
      if port \<noteq> 0 \<and> port = SchemeDefaultPort scheme then
        (case (if length host > 0 \<and> last host \<noteq> CHR '']''
               then LastIndexByte host (CHR '':'') else None) of
           Some i \<Rightarrow>
             \<lparr>arg_Name = URL_String scheme (take i host), arg_Resource = destinationServiceResource\<rparr>
         | None \<Rightarrow>
             \<lparr>arg_Name = URL_String scheme host,
              arg_Resource = destinationServiceResource @ '':'' @ Sprintf_d port\<rparr>)
      else \<lparr>arg_Name = URL_String scheme host, arg_Resource = destinationServiceResource\<rparr>)"

definition SetHTTPRequest :: "SpanContext \<Rightarrow> Request \<Rightarrow> SpanContext" where
  "SetHTTPRequest c req =
     (case req_URL req of
        None \<Rightarrow> c
      | Some u \<Rightarrow>
          (let c1 = c\<lparr>c_http := (c_http c)\<lparr>http_URL := Some u\<rparr>,
                      model := (model c)\<lparr>HTTP := True\<rparr>\<rparr>;
               (addr, port) = DestinationAddr u;
               c2 = SetDestinationAddress c1 addr port
           in SetDestinationService c2 (destinationService_of (Scheme u) (Host u) port)))"

text \<open>\<^verbatim>\<open>SetHTTPStatusCode\<close>: \<^verbatim>\<open>c.http.StatusCode = statusCode; c.model.HTTP = &c.http\<close>.\<close>

definition SetHTTPStatusCode :: "SpanContext \<Rightarrow> int \<Rightarrow> SpanContext" where
  "SetHTTPStatusCode c statusCode =
     c\<lparr>c_http := (c_http c)\<lparr>StatusCode := statusCode\<rparr>, model := (model c)\<lparr>HTTP := True\<rparr>\<rparr>"

text \<open>
  \<^verbatim>\<open>SetMessage\<close> does nothing for an empty queue name; otherwise it allocates the queue
  structure and sets \<^verbatim>\<open>c.model.Message = &c.message\<close>.
\<close>

definition SetMessage :: "SpanContext \<Rightarrow> MessageSpanContext \<Rightarrow> SpanContext" where
  "SetMessage c message =
     (if QueueName message = [] then c
      else c\<lparr>c_message := (c_message c)\<lparr>Queue := Some (truncateString (QueueName message))\<rparr>,
             model := (model c)\<lparr>Message := True\<rparr>\<rparr>)"

text \<open>
  \<^verbatim>\<open>
  func (c *SpanContext) SetServiceTarget(service ServiceTargetSpanContext) {
      c.serviceTarget.Type = truncateString(service.Type)
      c.serviceTarget.Name = truncateString(service.Name)
      c.service.Target = &c.serviceTarget
      c.model.Service = &c.service
  }
  \<close>
\<close>

definition SetServiceTarget :: "SpanContext \<Rightarrow> ServiceTargetSpanContext \<Rightarrow> SpanContext" where
  "SetServiceTarget c svc =
     c\<lparr>serviceTarget :=
         \<lparr>target_Type = truncateString (arg_target_Type svc), target_Name = truncateString (arg_target_Name svc)\<rparr>,
       c_service := (c_service c)\<lparr>Target := True\<rparr>,
       model := (model c)\<lparr>Service := True\<rparr>\<rparr>"

text \<open>\<^verbatim>\<open>SetDestinationCloud\<close> sets the region and both pointers on the way to it.\<close>

definition SetDestinationCloud :: "SpanContext \<Rightarrow> DestinationCloudSpanContext \<Rightarrow> SpanContext" where
  "SetDestinationCloud c cloud =
     c\<lparr>destinationCloud := \<lparr>cloud_Region = truncateString (arg_Region cloud)\<rparr>,
       c_destination := (c_destination c)\<lparr>dest_Cloud := True\<rparr>,
       model := (model c)\<lparr>Destination := True\<rparr>\<rparr>"

text \<open>
  \<^verbatim>\<open>
  func (c *SpanContext) outcome() string {
      if c.http.StatusCode != 0 {
          if c.http.StatusCode < 400 {
              return "success"
          }
          return "failure"
      }
      return ""
  }
  \<close>
\<close>

definition SpanContext_outcome :: "SpanContext \<Rightarrow> string" where
  "SpanContext_outcome c =
     (if StatusCode (c_http c) \<noteq> 0
      then (if StatusCode (c_http c) < 400 then ''success'' else ''failure'')
      else [])"

text \<open>
  The calls that only set the service target or the OpenTelemetry data, and a sequence of
  them on one context.
\<close>

datatype target_otel_call =
    Call_SetServiceTarget ServiceTargetSpanContext
  | Call_SetOTelAttributes "string \<rightharpoonup> LabelValue"
  | Call_SetOTelSpanKind string

fun run_call :: "SpanContext \<Rightarrow> target_otel_call \<Rightarrow> SpanContext" where
  "run_call c (Call_SetServiceTarget svc) = SetServiceTarget c svc"
| "run_call c (Call_SetOTelAttributes m) = SetOTelAttributes c m"
| "run_call c (Call_SetOTelSpanKind k) = SetOTelSpanKind c k"

definition run_calls :: "SpanContext \<Rightarrow> target_otel_call list \<Rightarrow> SpanContext" where
  "run_calls c calls = foldl run_call c calls"

text \<open>The two requests of the example: \<^verbatim>\<open>https://example.com:443/x\<close> and the same on port 8443.\<close>

definition req_443 :: Request where
  "req_443 = \<lparr>req_URL = Some \<lparr>Scheme = ''https'', User = None, Host = ''example.com:443'', Path = ''/x''\<rparr>\<rparr>"

definition req_8443 :: Request where
  "req_8443 = \<lparr>req_URL = Some \<lparr>Scheme = ''https'', User = None, Host = ''example.com:8443'', Path = ''/x''\<rparr>\<rparr>"

section \<open>Trace contexts and samplers (declared outside the files at hand)\<close>

text \<open>
  transaction.go works on \<^verbatim>\<open>TraceID\<close>, \<^verbatim>\<open>SpanID\<close>, \<^verbatim>\<open>TraceOptions\<close>, \<^verbatim>\<open>TraceState\<close>,
  \<^verbatim>\<open>TraceContext\<close>, \<^verbatim>\<open>SpanLink\<close> and \<^verbatim>\<open>SampleResult\<close>, which are declared in other files of
  the package. Their shape is read off the statements that use them and off the data model
  of the spec: a \<^verbatim>\<open>TraceID\<close> is an array of 16 bytes and a \<^verbatim>\<open>SpanID\<close> an array of 8 bytes
  (the code slices them as \<^verbatim>\<open>Trace[:8]\<close>, \<^verbatim>\<open>Trace[8:]\<close> and \<^verbatim>\<open>Span[:]\<close>), the options are one
  byte of flags, the state is an ordered list of vendor entries.
\<close>

type_synonym TraceID = "8 word list"
type_synonym SpanID = "8 word list"
type_synonym TraceOptions = "8 word"

text \<open>The zero values \<^verbatim>\<open>TraceID{}\<close> and \<^verbatim>\<open>SpanID{}\<close>.\<close>

definition zero_TraceID :: TraceID where
  "zero_TraceID = replicate 16 0"

definition zero_SpanID :: SpanID where
  "zero_SpanID = replicate 8 0"

text \<open>
  Modelled from the spec: \<^verbatim>\<open>isZero\<close> and \<^verbatim>\<open>Validate\<close> of the two identifiers are defined
  outside the files at hand. The spec: the ``zero'' value is invalid; \<^verbatim>\<open>Validate\<close> rejects
  all-zero values. \<open>Validate_ok\<close> stands for \<^verbatim>\<open>Validate() == nil\<close>.
\<close>

definition TraceID_isZero :: "TraceID \<Rightarrow> bool" where
  "TraceID_isZero t = (t = zero_TraceID)"

definition SpanID_isZero :: "SpanID \<Rightarrow> bool" where
  "SpanID_isZero s = (s = zero_SpanID)"

definition TraceID_Validate_ok :: "TraceID \<Rightarrow> bool" where
  "TraceID_Validate_ok t = (\<not> TraceID_isZero t)"

definition SpanID_Validate_ok :: "SpanID \<Rightarrow> bool" where
  "SpanID_Validate_ok s = (\<not> SpanID_isZero s)"

text \<open>
  \<^verbatim>\<open>binary.LittleEndian.PutUint64(b, v)\<close> writes the eight bytes of \<^verbatim>\<open>v\<close>, the lowest first.
\<close>

definition PutUint64 :: "64 word \<Rightarrow> 8 word list" where
  "PutUint64 v = map (\<lambda>i. ucast (drop_bit (8 * i) v)) [0..<8]"

text \<open>
  Modelled from the spec: the flags byte holds the sampled/recorded bit. \<^verbatim>\<open>WithRecorded\<close>
  and \<^verbatim>\<open>Recorded\<close> are defined outside the files at hand; the bit is the lowest one.
\<close>

definition WithRecorded :: "TraceOptions \<Rightarrow> bool \<Rightarrow> TraceOptions" where
  "WithRecorded x r = (if r then x OR 1 else x AND NOT 1)"

definition Recorded :: "TraceOptions \<Rightarrow> bool" where
  "Recorded x = bit x 0"

text \<open>
  Modelled from the spec: a \<^verbatim>\<open>TraceState\<close> is the ordered list of vendor entries together
  with the flag \<^verbatim>\<open>haveElastic\<close> that transaction.go reads: a recognised vendor key is present.
  \<^verbatim>\<open>NewTraceState\<close> and the key \<^verbatim>\<open>elasticTracestateVendorKey\<close> are defined outside the files
  at hand; the key is taken to be \<^verbatim>\<open>es\<close>.
\<close>

record TraceStateEntry =
  tse_Key :: string
  tse_Value :: string

record TraceState =
  entries :: "TraceStateEntry list"
  haveElastic :: bool

definition zero_TraceState :: TraceState where
  "zero_TraceState = \<lparr>entries = [], haveElastic = False\<rparr>"

definition elasticTracestateVendorKey :: string where
  "elasticTracestateVendorKey = ''es''"

definition NewTraceState :: "TraceStateEntry list \<Rightarrow> TraceState" where
  "NewTraceState es =
     \<lparr>entries = es, haveElastic = (elasticTracestateVendorKey \<in> tse_Key ` set es)\<rparr>"

record TraceContext =
  Trace :: TraceID
  Span :: SpanID
  Options :: TraceOptions
  State :: TraceState

definition zero_TraceContext :: TraceContext where
  "zero_TraceContext =
     \<lparr>Trace = zero_TraceID, Span = zero_SpanID, Options = 0, State = zero_TraceState\<rparr>"

record SpanLink =
  link_Trace :: TraceID
  link_Span :: SpanID

text \<open>
  \<^verbatim>\<open>SampleResult{Sampled, SampleRate}\<close>; the rate is a \<^verbatim>\<open>float64\<close> in the source and a real
  number here. A \<^verbatim>\<open>Sampler\<close> is an interface with one method, \<^verbatim>\<open>Sample\<close>, from the
  \<^verbatim>\<open>SampleParams\<close> (which hold the trace context) to a \<^verbatim>\<open>SampleResult\<close>: a function here.
\<close>

record SampleResult =
  Sampled :: bool
  SampleRate :: real

type_synonym Sampler = "TraceContext \<Rightarrow> SampleResult"

section \<open>Instrumentation configuration (config.go)\<close>

subsection \<open>Configuration values\<close>

text \<open>
  Modelled from the spec: \<^verbatim>\<open>CaptureBodyMode\<close> is declared outside the files at hand; the spec
  lists its four modes, \<^verbatim>\<open>off\<close>, \<^verbatim>\<open>errors\<close>, \<^verbatim>\<open>transactions\<close> and \<^verbatim>\<open>all\<close>.
\<close>

datatype CaptureBodyMode =
  CaptureBodyOff | CaptureBodyErrors | CaptureBodyTransactions | CaptureBodyAll

text \<open>
  \<^verbatim>\<open>wildcard.Matchers\<close> is a list of patterns; a \<^verbatim>\<open>time.Duration\<close> is a number of
  nanoseconds. \<^verbatim>\<open>compressionOptions\<close> is declared outside the files at hand; config.go
  assigns its three fields.
\<close>

type_synonym Matchers = "string list"
type_synonym time_Duration = int

record compressionOptions =
  enabled :: bool
  exactMatchMaxDuration :: time_Duration
  sameKindMaxDuration :: time_Duration

text \<open>
  \<^verbatim>\<open>type instrumentationConfigValues struct\<close>, field by field. A \<^verbatim>\<open>nil\<close> sampler is \<open>None\<close>.
\<close>

record instrumentationConfigValues =
  recording :: bool
  captureBody :: CaptureBodyMode
  captureHeaders :: bool
  maxSpans :: int
  sampler :: "Sampler option"
  spanStackTraceMinDuration :: time_Duration
  exitSpanMinDuration :: time_Duration
  continuationStrategy :: string
  stackTraceLimit :: int
  propagateLegacyHeader :: bool
  sanitizedFieldNames :: Matchers
  ignoreTransactionURLs :: Matchers
  compressionOptions :: compressionOptions

text \<open>
  \<^verbatim>\<open>
  type instrumentationConfig struct {
      instrumentationConfigValues
      local  map[string]func(*instrumentationConfigValues)
      remote map[string]struct{}
  }
  \<close>
  The embedded structure is the field \<open>cfg_values\<close>. A function of \<^verbatim>\<open>local\<close> changes the
  values it is given a pointer to: it is a function from values to values. \<^verbatim>\<open>remote\<close> is a
  set of keys.
\<close>

record instrumentationConfig =
  cfg_values :: instrumentationConfigValues
  local :: "string \<rightharpoonup> (instrumentationConfigValues \<Rightarrow> instrumentationConfigValues)"
  remote :: "string set"

subsection \<open>Parsing\<close>

text \<open>
  The functions of the Go library and of other packages of the repository that config.go
  calls to parse a value: \<^verbatim>\<open>strconv.Atoi\<close>, \<^verbatim>\<open>strconv.ParseBool\<close>, \<^verbatim>\<open>strconv.ParseFloat\<close>,
  \<^verbatim>\<open>configutil.ParseDuration\<close>, \<^verbatim>\<open>configutil.ParseDurationOptions\<close> (with the minimum unit
  \<^verbatim>\<open>time.Microsecond\<close>), \<^verbatim>\<open>configutil.ParseWildcardPatterns\<close>, \<^verbatim>\<open>NewRatioSampler\<close> and
  \<^verbatim>\<open>apmlog.ParseLogLevel\<close>. They are parameters: every property below holds whatever these
  functions return. \<open>None\<close> is an error return.
\<close>

record parsers =
  Atoi :: "string \<Rightarrow> int option"
  ParseBool :: "string \<Rightarrow> bool option"
  ParseFloat :: "string \<Rightarrow> real option"
  ParseDuration :: "string \<Rightarrow> time_Duration option"
  ParseDurationOptions :: "string \<Rightarrow> time_Duration option"
  ParseWildcardPatterns :: "string \<Rightarrow> Matchers"
  NewRatioSampler :: "real \<Rightarrow> Sampler"
  ParseLogLevel :: "string \<Rightarrow> nat option"

text \<open>
  \<^verbatim>\<open>strings.ToUpper\<close>, \<^verbatim>\<open>strings.ToLower\<close> and \<^verbatim>\<open>strings.TrimSpace\<close> on ASCII text: the
  letters \<^verbatim>\<open>a\<close> to \<^verbatim>\<open>z\<close> and \<^verbatim>\<open>A\<close> to \<^verbatim>\<open>Z\<close> change case, every other byte stays; the
  white space is space, tab, line feed, vertical tab, form feed and carriage return. (Go
  maps letters beyond ASCII too; configuration keys and values hold none.)
\<close>

definition ToUpper_char :: "char \<Rightarrow> char" where
  "ToUpper_char c =
     (case map_of (zip ''abcdefghijklmnopqrstuvwxyz'' ''ABCDEFGHIJKLMNOPQRSTUVWXYZ'') c of
        Some u \<Rightarrow> u | None \<Rightarrow> c)"

definition ToLower_char :: "char \<Rightarrow> char" where
  "ToLower_char c =
     (case map_of (zip ''ABCDEFGHIJKLMNOPQRSTUVWXYZ'' ''abcdefghijklmnopqrstuvwxyz'') c of
        Some l \<Rightarrow> l | None \<Rightarrow> c)"

definition ToUpper :: "string \<Rightarrow> string" where
  "ToUpper s = map ToUpper_char s"

definition ToLower :: "string \<Rightarrow> string" where
  "ToLower s = map ToLower_char s"

definition is_space :: "char \<Rightarrow> bool" where
  "is_space c = (c \<in> set [CHR '' '', CHR 0x09, CHR 0x0A, CHR 0x0B, CHR 0x0C, CHR 0x0D])"

definition TrimSpace :: "string \<Rightarrow> string" where
  "TrimSpace s = rev (dropWhile is_space (rev (dropWhile is_space s)))"

text \<open>
  \<^verbatim>\<open>
  func parseCaptureBody(name, value string) (CaptureBodyMode, error) {
      switch strings.TrimSpace(strings.ToLower(value)) {
      case "all":          return CaptureBodyAll, nil
      case "errors":       return CaptureBodyErrors, nil
      case "transactions": return CaptureBodyTransactions, nil
      case "off":          return CaptureBodyOff, nil
      }
      return -1, errors.Errorf("invalid %s value %q", name, value)
  }
  \<close>
\<close>

definition parseCaptureBody :: "string \<Rightarrow> string \<Rightarrow> CaptureBodyMode option" where
  "parseCaptureBody name v =
     (let s = TrimSpace (ToLower v) in
      if s = ''all'' then Some CaptureBodyAll
      else if s = ''errors'' then Some CaptureBodyErrors
      else if s = ''transactions'' then Some CaptureBodyTransactions
      else if s = ''off'' then Some CaptureBodyOff
      else None)"

text \<open>
  \<^verbatim>\<open>
  func parseSampleRate(name, value string) (Sampler, error) {
      if value == "" {
          value = "1"
      }
      ratio, err := strconv.ParseFloat(value, 64)
      if err != nil {
          return nil, errors.Wrapf(err, "failed to parse %s", name)
      }
      if ratio < 0.0 || ratio > 1.0 {
          return nil, errors.Errorf(...)
      }
      return NewRatioSampler(ratio), nil
  }
  \<close>
\<close>

definition parseSampleRate :: "parsers \<Rightarrow> string \<Rightarrow> string \<Rightarrow> Sampler option" where
  "parseSampleRate P name v =
     (case ParseFloat P (if v = [] then ''1'' else v) of
        None \<Rightarrow> None
      | Some ratio \<Rightarrow> if ratio < 0 \<or> ratio > 1 then None else Some (NewRatioSampler P ratio))"

text \<open>\<^verbatim>\<open>validateContinuationStrategy\<close>: \<open>True\<close> for a \<^verbatim>\<open>nil\<close> error.\<close>

definition validateContinuationStrategy :: "string \<Rightarrow> bool" where
  "validateContinuationStrategy v =
     (v = ''continue'' \<or> v = ''restart'' \<or> v = ''restart_external'')"

subsection \<open>The names of the settings\<close>

definition envMaxSpans :: string where
  "envMaxSpans = ''ELASTIC_APM_TRANSACTION_MAX_SPANS''"

definition envTransactionSampleRate :: string where
  "envTransactionSampleRate = ''ELASTIC_APM_TRANSACTION_SAMPLE_RATE''"

definition envSanitizeFieldNames :: string where
  "envSanitizeFieldNames = ''ELASTIC_APM_SANITIZE_FIELD_NAMES''"

definition envCaptureBody :: string where
  "envCaptureBody = ''ELASTIC_APM_CAPTURE_BODY''"

definition envSpanStackTraceMinDuration :: string where
  "envSpanStackTraceMinDuration = ''ELASTIC_APM_SPAN_STACK_TRACE_MIN_DURATION''"

definition envRecording :: string where
  "envRecording = ''ELASTIC_APM_RECORDING''"

definition envIgnoreURLs :: string where
  "envIgnoreURLs = ''ELASTIC_APM_TRANSACTION_IGNORE_URLS''"

definition envStackTraceLimit :: string where
  "envStackTraceLimit = ''ELASTIC_APM_STACK_TRACE_LIMIT''"

definition envContinuationStrategy :: string where
  "envContinuationStrategy = ''ELASTIC_APM_TRACE_CONTINUATION_STRATEGY''"

definition envSpanCompressionEnabled :: string where
  "envSpanCompressionEnabled = ''ELASTIC_APM_SPAN_COMPRESSION_ENABLED''"

definition envSpanCompressionExactMatchMaxDuration :: string where
  "envSpanCompressionExactMatchMaxDuration =
     ''ELASTIC_APM_SPAN_COMPRESSION_EXACT_MATCH_MAX_DURATION''"

definition envSpanCompressionSameKindMaxDuration :: string where
  "envSpanCompressionSameKindMaxDuration =
     ''ELASTIC_APM_SPAN_COMPRESSION_SAME_KIND_MAX_DURATION''"

definition envExitSpanMinDuration :: string where
  "envExitSpanMinDuration = ''ELASTIC_APM_EXIT_SPAN_MIN_DURATION''"

text \<open>
  \<^verbatim>\<open>apmlog.EnvLogLevel\<close> is declared in package \<^verbatim>\<open>apmlog\<close>; it is taken to be
  \<^verbatim>\<open>ELASTIC_APM_LOG_LEVEL\<close>.
\<close>

definition EnvLogLevel :: string where
  "EnvLogLevel = ''ELASTIC_APM_LOG_LEVEL''"

text \<open>\<^verbatim>\<open>envName := func(k string) string { return "ELASTIC_APM_" + strings.ToUpper(k) }\<close>\<close>

definition envName :: "string \<Rightarrow> string" where
  "envName k = ''ELASTIC_APM_'' @ ToUpper k"

subsection \<open>\<^verbatim>\<open>updateRemoteConfig\<close>\<close>

text \<open>
  What an update of the configuration can change: the configuration that the tracer's
  pointer \<^verbatim>\<open>instrumentationConfigInternal\<close> shows, and the level of the default logger of
  package \<^verbatim>\<open>apmlog\<close> (a number here), which the update for the log level sets.
\<close>

record config_world =
  ic :: instrumentationConfig
  dl_level :: nat

text \<open>
  The elements of \<^verbatim>\<open>updates []func(cfg *instrumentationConfig)\<close>: a function on the
  configuration, or the closure \<^verbatim>\<open>func(*instrumentationConfig) { dl.SetLevel(level) }\<close>.
\<close>

datatype update =
    Update "instrumentationConfig \<Rightarrow> instrumentationConfig"
  | SetLevel nat

fun run_update :: "config_world \<Rightarrow> update \<Rightarrow> config_world" where
  "run_update w (Update f) = w\<lparr>ic := f (ic w)\<rparr>"
| "run_update w (SetLevel l) = w\<lparr>dl_level := l\<rparr>"

text \<open>
  The \<^verbatim>\<open>logger\<close> argument may be \<^verbatim>\<open>nil\<close> (\<open>None\<close>); then \<^verbatim>\<open>warningf\<close>, \<^verbatim>\<open>debugf\<close> and
  \<^verbatim>\<open>errorf\<close> are functions that do nothing. Otherwise each call is one entry of the log; an
  entry keeps the kind of the message and the key (and value) it is about.
\<close>

datatype Logger = TheDefaultLogger | CustomLogger

datatype log_entry =
    Errorf string
  | Warningf string
  | Debugf_updated string string
  | Debugf_reverted string

definition emit :: "Logger option \<Rightarrow> log_entry \<Rightarrow> log_entry list" where
  "emit logger e = (case logger of None \<Rightarrow> [] | Some l \<Rightarrow> [e])"

text \<open>
  Two of the closures that the loops of \<^verbatim>\<open>updateRemoteConfig\<close> append to \<^verbatim>\<open>updates\<close> read a
  variable of their loop when they run, and they run after the loops: the closure for
  \<^verbatim>\<open>trace_continuation_strategy\<close> reads \<^verbatim>\<open>v\<close> of \<^verbatim>\<open>for k, v := range attrs\<close>, and the
  closure that reverts a key reads \<^verbatim>\<open>k\<close> of \<^verbatim>\<open>for k := range old\<close>. Neither loop copies
  its variable (there is no \<^verbatim>\<open>k := k\<close> or \<^verbatim>\<open>v := v\<close>). What such a closure reads depends on
  the version of the language that the module declares in \<^verbatim>\<open>go.mod\<close>, which is not among
  the files at hand. Before Go 1.22 a loop has one variable for all its passes
  (\<open>PerLoop\<close>): after the loop it holds the value of the last pass, and that is what every
  closure reads. From Go 1.22 on every pass has a variable of its own (\<open>PerIteration\<close>),
  and a closure reads the value of the pass that made it. The version is a parameter of
  the model; \<open>captured lv own final\<close> is what a closure reads of a variable that held
  \<open>own\<close> in the pass that made the closure and \<open>final\<close> in the last pass of the loop.
\<close>

datatype loopvars = PerLoop | PerIteration

definition captured :: "loopvars \<Rightarrow> 'a \<Rightarrow> 'a \<Rightarrow> 'a" where
  "captured lv own final = (case lv of PerLoop \<Rightarrow> final | PerIteration \<Rightarrow> own)"

text \<open>
  One pass of the body of \<^verbatim>\<open>for k, v := range attrs\<close>, for a key whose value differs from
  the old one: the \<^verbatim>\<open>switch envName(k)\<close>. Either a function is appended to \<^verbatim>\<open>updates\<close>
  (\<open>Apply\<close>), or the key is deleted from \<^verbatim>\<open>attrs\<close> after a call of \<^verbatim>\<open>errorf\<close> or
  \<^verbatim>\<open>warningf\<close> (\<open>Reject\<close>). \<open>dl\<close> says that \<^verbatim>\<open>apmlog.DefaultLogger()\<close> is not \<^verbatim>\<open>nil\<close>.
  Every closure but one keeps a variable that its own pass declared (\<^verbatim>\<open>value\<close>,
  \<^verbatim>\<open>duration\<close>, \<^verbatim>\<open>matchers\<close>, ...). The one for the continuation strategy is
  \<^verbatim>\<open>func(cfg *instrumentationConfig) { cfg.continuationStrategy = v }\<close>: the pass validates
  its \<^verbatim>\<open>v\<close>, and the closure writes \<open>vc\<close>, what \<^verbatim>\<open>v\<close> holds when the closure runs.
\<close>

datatype attr_result = Apply update | Reject log_entry

definition set_values ::
  "(instrumentationConfigValues \<Rightarrow> instrumentationConfigValues) \<Rightarrow> update" where
  "set_values f = Update (\<lambda>cfg. cfg\<lparr>cfg_values := f (cfg_values cfg)\<rparr>)"

definition parse_attr ::
  "parsers \<Rightarrow> Logger option \<Rightarrow> bool \<Rightarrow> string \<Rightarrow> string \<Rightarrow> string \<Rightarrow> attr_result" where
  "parse_attr P logger dl k v vc =
     (let e = envName k in
      if e = envCaptureBody then
        (case parseCaptureBody k v of
           None \<Rightarrow> Reject (Errorf k)
         | Some x \<Rightarrow> Apply (set_values (\<lambda>c. c\<lparr>captureBody := x\<rparr>)))
      else if e = envMaxSpans then
        (case Atoi P v of
           None \<Rightarrow> Reject (Errorf k)
         | Some x \<Rightarrow> Apply (set_values (\<lambda>c. c\<lparr>maxSpans := x\<rparr>)))
      else if e = envExitSpanMinDuration then
        (case ParseDurationOptions P v of
           None \<Rightarrow> Reject (Errorf k)
         | Some x \<Rightarrow> Apply (set_values (\<lambda>c. c\<lparr>exitSpanMinDuration := x\<rparr>)))
      else if e = envIgnoreURLs then
        Apply (set_values (\<lambda>c. c\<lparr>ignoreTransactionURLs := ParseWildcardPatterns P v\<rparr>))
      else if e = envRecording then
        (case ParseBool P v of
           None \<Rightarrow> Reject (Errorf k)
         | Some x \<Rightarrow> Apply (set_values (\<lambda>c. c\<lparr>recording := x\<rparr>)))
      else if e = envSanitizeFieldNames then
        Apply (set_values (\<lambda>c. c\<lparr>sanitizedFieldNames := ParseWildcardPatterns P v\<rparr>))
      else if e = envContinuationStrategy then
        (if \<not> validateContinuationStrategy v then Reject (Errorf k)
         else Apply (set_values (\<lambda>c. c\<lparr>continuationStrategy := vc\<rparr>)))
      else if e = envSpanStackTraceMinDuration then
        (case ParseDuration P v of
           None \<Rightarrow> Reject (Errorf k)
         | Some x \<Rightarrow> Apply (set_values (\<lambda>c. c\<lparr>spanStackTraceMinDuration := x\<rparr>)))
      else if e = envStackTraceLimit then
        (case Atoi P v of
           None \<Rightarrow> Reject (Errorf k)
         | Some x \<Rightarrow> Apply (set_values (\<lambda>c. c\<lparr>stackTraceLimit := x\<rparr>)))
      else if e = envTransactionSampleRate then
        (case parseSampleRate P k v of
           None \<Rightarrow> Reject (Errorf k)
         | Some x \<Rightarrow> Apply (set_values (\<lambda>c. c\<lparr>sampler := Some x\<rparr>)))
      else if e = EnvLogLevel then
        (case ParseLogLevel P v of
           None \<Rightarrow> Reject (Errorf k)
         | Some level \<Rightarrow>
             if dl \<and> logger = Some TheDefaultLogger then Apply (SetLevel level)
             else Reject (Warningf k))
      else if e = envSpanCompressionEnabled then
        (case ParseBool P v of
           None \<Rightarrow> Reject (Errorf k)
         | Some x \<Rightarrow>
             Apply (set_values (\<lambda>c. c\<lparr>compressionOptions := (compressionOptions c)\<lparr>enabled := x\<rparr>\<rparr>)))
      else if e = envSpanCompressionExactMatchMaxDuration then
        (case ParseDuration P v of
           None \<Rightarrow> Reject (Errorf k)
         | Some x \<Rightarrow>
             Apply (set_values
               (\<lambda>c. c\<lparr>compressionOptions := (compressionOptions c)\<lparr>exactMatchMaxDuration := x\<rparr>\<rparr>)))
      else if e = envSpanCompressionSameKindMaxDuration then
        (case ParseDuration P v of
           None \<Rightarrow> Reject (Errorf k)
         | Some x \<Rightarrow>
             Apply (set_values
               (\<lambda>c. c\<lparr>compressionOptions := (compressionOptions c)\<lparr>sameKindMaxDuration := x\<rparr>\<rparr>)))
      else Reject (Warningf k))"

text \<open>
  The maps \<^verbatim>\<open>old\<close> and \<^verbatim>\<open>attrs\<close> are lists of pairs with distinct keys, in the order in
  which \<^verbatim>\<open>range\<close> visits them: Go fixes no order, so a property that holds for every list
  holds for every order. \<^verbatim>\<open>old[k]\<close> is \<open>map_of old k\<close>.

  \<^verbatim>\<open>
  for k, v := range attrs {
      if oldv, ok := old[k]; ok && oldv == v {
          continue
      }
      switch envName(k) { ... }
      debugf("central config update: updated %s to %s", k, v)
  }
  \<close>
  The result is the list of updates appended, the entries that stay in \<^verbatim>\<open>attrs\<close>, and the
  log. \<open>vfinal\<close> is the value of \<^verbatim>\<open>v\<close> in the last pass of the loop.
\<close>

fun attrs_loop :: "loopvars \<Rightarrow> parsers \<Rightarrow> Logger option \<Rightarrow> bool \<Rightarrow> (string \<times> string) list \<Rightarrow>
    string \<Rightarrow> (string \<times> string) list \<Rightarrow>
    update list \<times> (string \<times> string) list \<times> log_entry list" where
  "attrs_loop lv P logger dl old vfinal [] = ([], [], [])"
| "attrs_loop lv P logger dl old vfinal ((k, v) # rest) =
     (case attrs_loop lv P logger dl old vfinal rest of
        (us, kept, lg) \<Rightarrow>
          if map_of old k = Some v then (us, (k, v) # kept, lg)
          else (case parse_attr P logger dl k v (captured lv v vfinal) of
                  Apply u \<Rightarrow> (u # us, (k, v) # kept, emit logger (Debugf_updated k v) @ lg)
                | Reject e \<Rightarrow> (us, kept, emit logger e @ lg)))"

text \<open>
  \<^verbatim>\<open>
  for k := range old {
      if _, ok := attrs[k]; ok {
          continue
      }
      updates = append(updates, func(cfg *instrumentationConfig) {
          if f, ok := cfg.local[envName(k)]; ok {
              f(&cfg.instrumentationConfigValues)
          }
      })
      debugf("central config update: reverted %s to local config", k)
  }
  \<close>
  \<open>revert_update kc\<close> is the closure, \<open>kc\<close> being what \<^verbatim>\<open>k\<close> holds when the closure runs.
  \<open>kfinal\<close> is the value of \<^verbatim>\<open>k\<close> in the last pass of the loop: the last key of \<^verbatim>\<open>old\<close> that
  \<^verbatim>\<open>range\<close> visits, whether the pass went on or left by \<^verbatim>\<open>continue\<close>.
\<close>

definition revert_update :: "string \<Rightarrow> update" where
  "revert_update kc =
     Update (\<lambda>cfg. case local cfg (envName kc) of
                     Some f \<Rightarrow> cfg\<lparr>cfg_values := f (cfg_values cfg)\<rparr>
                   | None \<Rightarrow> cfg)"

fun old_loop :: "loopvars \<Rightarrow> Logger option \<Rightarrow> (string \<times> string) list \<Rightarrow> string \<Rightarrow>
    (string \<times> string) list \<Rightarrow> update list \<times> log_entry list" where
  "old_loop lv logger attrs kfinal [] = ([], [])"
| "old_loop lv logger attrs kfinal ((k, ov) # rest) =
     (case old_loop lv logger attrs kfinal rest of
        (us, lg) \<Rightarrow>
          if map_of attrs k \<noteq> None then (us, lg)
          else (revert_update (captured lv k kfinal) # us,
                emit logger (Debugf_reverted k) @ lg))"

text \<open>
  \<^verbatim>\<open>updateInstrumentationConfig\<close> copies the current configuration, lets \<^verbatim>\<open>f\<close> change the
  copy and swaps the pointer, again and again until no other update came between. For one
  caller at a time this is one run of \<^verbatim>\<open>f\<close> on the current configuration.
\<close>

definition updateInstrumentationConfig :: "(config_world \<Rightarrow> config_world) \<Rightarrow> config_world \<Rightarrow> config_world" where
  "updateInstrumentationConfig f w = f w"

text \<open>
  \<^verbatim>\<open>
  if updates != nil {
      remote := make(map[string]struct{})
      for k := range attrs {
          remote[envName(k)] = struct{}{}
      }
      t.updateInstrumentationConfig(func(cfg *instrumentationConfig) {
          cfg.remote = remote
          for _, update := range updates {
              update(cfg)
          }
      })
  }
  \<close>
  \<^verbatim>\<open>updateRemoteConfig\<close> returns the new state, \<^verbatim>\<open>attrs\<close> as the call leaves it, and the log.
  \<open>last_key\<close> and \<open>last_val\<close> are the key and the value of the last entry that \<^verbatim>\<open>range\<close>
  visits; a loop over an empty map makes no closure, and nothing reads them then.
\<close>

definition apply_updates :: "string set \<Rightarrow> update list \<Rightarrow> config_world \<Rightarrow> config_world" where
  "apply_updates rem updates w = foldl run_update (w\<lparr>ic := (ic w)\<lparr>remote := rem\<rparr>\<rparr>) updates"

definition last_key :: "(string \<times> string) list \<Rightarrow> string" where
  "last_key m = (if m = [] then [] else fst (last m))"

definition last_val :: "(string \<times> string) list \<Rightarrow> string" where
  "last_val m = (if m = [] then [] else snd (last m))"

definition updateRemoteConfig :: "loopvars \<Rightarrow> parsers \<Rightarrow> Logger option \<Rightarrow> bool \<Rightarrow> config_world \<Rightarrow>
    (string \<times> string) list \<Rightarrow> (string \<times> string) list \<Rightarrow>
    config_world \<times> (string \<times> string) list \<times> log_entry list" where
  "updateRemoteConfig lv P logger dl w old attrs =
     (case attrs_loop lv P logger dl old (last_val attrs) attrs of
        (us1, attrs', lg1) \<Rightarrow>
          (case old_loop lv logger attrs' (last_key old) old of
             (us2, lg2) \<Rightarrow>
               (if us1 @ us2 \<noteq> []
                then updateInstrumentationConfig
                       (apply_updates (envName ` fst ` set attrs') (us1 @ us2)) w
                else w,
                attrs', lg1 @ lg2)))"

text \<open>
  \<^verbatim>\<open>
  func (t *Tracer) setLocalInstrumentationConfig(envKey string, f func(cfg *instrumentationConfigValues)) {
      t.updateInstrumentationConfig(func(cfg *instrumentationConfig) {
          cfg.local[envKey] = f
          if _, ok := cfg.remote[envKey]; !ok {
              f(&cfg.instrumentationConfigValues)
          }
      })
  }
  \<close>
\<close>

definition setLocalInstrumentationConfig ::
  "string \<Rightarrow> (instrumentationConfigValues \<Rightarrow> instrumentationConfigValues) \<Rightarrow>
   config_world \<Rightarrow> config_world" where
  "setLocalInstrumentationConfig envKey f w =
     updateInstrumentationConfig
       (\<lambda>w. let cfg = (ic w)\<lparr>local := (local (ic w))(envKey \<mapsto> f)\<rparr> in
             w\<lparr>ic := (if envKey \<notin> remote cfg then cfg\<lparr>cfg_values := f (cfg_values cfg)\<rparr> else cfg)\<rparr>)
       w"

text \<open>
  A sequence of calls of \<^verbatim>\<open>updateRemoteConfig\<close>, each with its logger, its \<^verbatim>\<open>old\<close> and its
  \<^verbatim>\<open>attrs\<close>, on the state that the call before left.
\<close>

fun run_batches :: "loopvars \<Rightarrow> parsers \<Rightarrow> bool \<Rightarrow> config_world \<Rightarrow>
    (Logger option \<times> (string \<times> string) list \<times> (string \<times> string) list) list \<Rightarrow> config_world" where
  "run_batches lv P dl w [] = w"
| "run_batches lv P dl w ((logger, old, attrs) # bs) =
     run_batches lv P dl (fst (updateRemoteConfig lv P logger dl w old attrs)) bs"

subsection \<open>The two loops of \<^verbatim>\<open>updateRemoteConfig\<close>, entry by entry\<close>

text \<open>
  What one pass of \<^verbatim>\<open>for k, v := range attrs\<close> does with its entry, read off the loop body:
  \<open>attr_update\<close> is the function it appends to \<^verbatim>\<open>updates\<close>, if any (none for an entry whose
  value is the old one, and none for an entry that the \<^verbatim>\<open>switch\<close> rejects); \<open>attr_kept\<close>
  says that the entry stays in \<^verbatim>\<open>attrs\<close> (the loop deletes the entries that the \<^verbatim>\<open>switch\<close>
  rejects). \<open>valid_updates\<close> and \<open>kept_attrs\<close> collect them over the map; \<open>reverts\<close> are
  the closures of \<^verbatim>\<open>for k := range old\<close>, one for each key of \<^verbatim>\<open>old\<close> that is not a key
  of \<^verbatim>\<open>attrs\<close>. The section on the properties shows that \<open>attrs_loop\<close> and \<open>old_loop\<close>
  compute these lists.
\<close>

fun is_Apply :: "attr_result \<Rightarrow> bool" where
  "is_Apply (Apply u) = True"
| "is_Apply (Reject e) = False"

fun attr_update :: "loopvars \<Rightarrow> parsers \<Rightarrow> Logger option \<Rightarrow> bool \<Rightarrow> (string \<times> string) list \<Rightarrow>
    string \<Rightarrow> string \<times> string \<Rightarrow> update option" where
  "attr_update lv P logger dl old vfinal (k, v) =
     (if map_of old k = Some v then None
      else (case parse_attr P logger dl k v (captured lv v vfinal) of
              Apply u \<Rightarrow> Some u
            | Reject e \<Rightarrow> None))"

fun attr_kept :: "loopvars \<Rightarrow> parsers \<Rightarrow> Logger option \<Rightarrow> bool \<Rightarrow> (string \<times> string) list \<Rightarrow>
    string \<Rightarrow> string \<times> string \<Rightarrow> bool" where
  "attr_kept lv P logger dl old vfinal (k, v) =
     (map_of old k = Some v \<or> is_Apply (parse_attr P logger dl k v (captured lv v vfinal)))"

definition valid_updates :: "loopvars \<Rightarrow> parsers \<Rightarrow> Logger option \<Rightarrow> bool \<Rightarrow>
    (string \<times> string) list \<Rightarrow> string \<Rightarrow> (string \<times> string) list \<Rightarrow> update list" where
  "valid_updates lv P logger dl old vfinal attrs =
     List.map_filter (attr_update lv P logger dl old vfinal) attrs"

definition kept_attrs :: "loopvars \<Rightarrow> parsers \<Rightarrow> Logger option \<Rightarrow> bool \<Rightarrow>
    (string \<times> string) list \<Rightarrow> string \<Rightarrow> (string \<times> string) list \<Rightarrow> (string \<times> string) list" where
  "kept_attrs lv P logger dl old vfinal attrs = filter (attr_kept lv P logger dl old vfinal) attrs"

definition reverts :: "loopvars \<Rightarrow> string \<Rightarrow> (string \<times> string) list \<Rightarrow> (string \<times> string) list \<Rightarrow>
    update list" where
  "reverts lv kfinal attrs old =
     map (\<lambda>k. revert_update (captured lv k kfinal))
       (filter (\<lambda>k. k \<notin> fst ` set attrs) (map fst old))"

section \<open>Dropped-span statistics (transaction.go)\<close>

text \<open>
  \<^verbatim>\<open>const maxDroppedSpanStats = 128\<close>: the hard limit for the number of dropped span
  stats that are stored in a transaction.
\<close>

definition maxDroppedSpanStats :: nat where
  "maxDroppedSpanStats = 128"

text \<open>
  \<^verbatim>\<open>type droppedSpanTimingsKey struct { destination string; outcome string }\<close>
\<close>

record droppedSpanTimingsKey =
  destination :: string
  outcome :: string

text \<open>
  The value type \<^verbatim>\<open>spanTiming\<close> is declared outside the files at hand; \<^verbatim>\<open>add\<close> uses its
  two fields, \<^verbatim>\<open>count\<close> (the source converts with \<^verbatim>\<open>uint64(count)\<close>) and \<^verbatim>\<open>duration\<close>
  (\<^verbatim>\<open>int64(d)\<close>). Both are 64-bit machine integers, so \<open>+\<close> wraps around.
\<close>

record spanTiming =
  duration :: "64 word"
  count :: "64 word"

definition zero_spanTiming :: spanTiming where
  "zero_spanTiming = \<lparr>duration = 0, count = 0\<rparr>"

text \<open>
  \<^verbatim>\<open>type droppedSpanTimingsMap map[droppedSpanTimingsKey]spanTiming\<close>. Go's \<^verbatim>\<open>len(m)\<close> is the
  number of keys, \<open>card (dom m)\<close>.
\<close>

type_synonym droppedSpanTimingsMap = "droppedSpanTimingsKey \<rightharpoonup> spanTiming"

text \<open>
  \<^verbatim>\<open>
  func (m droppedSpanTimingsMap) add(dst, outcome string, count int, d time.Duration) {
      k := droppedSpanTimingsKey{destination: dst, outcome: outcome}
      timing, ok := m[k]
      if ok || maxDroppedSpanStats > len(m) {
          timing.count += uint64(count)
          timing.duration += int64(d)
          m[k] = timing
      }
  }
  \<close>
  A missing key reads as the zero \<^verbatim>\<open>spanTiming\<close>. \<^verbatim>\<open>count\<close> (a 64-bit \<^verbatim>\<open>int\<close>) and \<^verbatim>\<open>d\<close>
  (\<^verbatim>\<open>time.Duration\<close>, an \<^verbatim>\<open>int64\<close>) are given by their 64-bit patterns, which the
  conversions keep.
\<close>

definition add :: "droppedSpanTimingsMap \<Rightarrow> string \<Rightarrow> string \<Rightarrow> 64 word \<Rightarrow> 64 word
    \<Rightarrow> droppedSpanTimingsMap" where
  "add m dst oc cnt d =
     (let k = \<lparr>destination = dst, outcome = oc\<rparr>;
          ok = (m k \<noteq> None);
          timing = (case m k of Some t \<Rightarrow> t | None \<Rightarrow> zero_spanTiming)
      in if ok \<or> maxDroppedSpanStats > card (dom m)
         then m(k \<mapsto> timing\<lparr>count := count timing + cnt, duration := duration timing + d\<rparr>)
         else m)"

text \<open>A sequence of \<^verbatim>\<open>add\<close> calls on one map, each call given by its four arguments.\<close>

fun add_all :: "droppedSpanTimingsMap \<Rightarrow> (string \<times> string \<times> 64 word \<times> 64 word) list
    \<Rightarrow> droppedSpanTimingsMap" where
  "add_all m [] = m"
| "add_all m ((dst, oc, cnt, d) # calls) = add_all (add m dst oc cnt d) calls"

text \<open>The key that one \<^verbatim>\<open>add\<close> call addresses.\<close>

fun call_key :: "string \<times> string \<times> 64 word \<times> 64 word \<Rightarrow> droppedSpanTimingsKey" where
  "call_key (dst, oc, cnt, d) = \<lparr>destination = dst, outcome = oc\<rparr>"

text \<open>
  128 calls with pairwise distinct destinations: they fill an empty map up to the limit.
\<close>

definition full_calls :: "(string \<times> string \<times> 64 word \<times> 64 word) list" where
  "full_calls = map (\<lambda>n. (replicate n (CHR ''x''), ''success'', 1, 1)) [0..<128]"

section \<open>Transactions (transaction.go)\<close>

subsection \<open>Data of a transaction\<close>

text \<open>
  The field \<^verbatim>\<open>Context\<close> of \<^verbatim>\<open>TransactionData\<close> has the type \<^verbatim>\<open>Context\<close>, the context of a
  transaction, which is declared outside the files at hand (it is not \<^verbatim>\<open>SpanContext\<close>).
  transaction.go assigns its fields \<^verbatim>\<open>captureBodyMask\<close>, \<^verbatim>\<open>captureHeaders\<close> and
  \<^verbatim>\<open>sanitizedFieldNames\<close> and calls its methods \<^verbatim>\<open>outcome\<close> and \<^verbatim>\<open>reset\<close>.

  Modelled from the spec: the captured HTTP status code of the context, and its methods
  \<^verbatim>\<open>outcome\<close> and \<^verbatim>\<open>reset\<close>, are not in the files at hand. The spec: the outcome is derived
  from the context, e.g. the HTTP status, and HTTP status capture sets an outcome hint,
  below 400 success, else failure; without a captured status (status 0) there is no hint,
  as in \<^verbatim>\<open>SpanContext.outcome\<close>. \<^verbatim>\<open>reset\<close> brings the context back to a recyclable zero state;
  the mask for capturing bodies, which only the allocation of the data sets, is kept.
\<close>

record Context =
  captureBodyMask :: CaptureBodyMode
  ctx_captureHeaders :: bool
  ctx_sanitizedFieldNames :: Matchers
  response_StatusCode :: int

definition Context_outcome :: "Context \<Rightarrow> string" where
  "Context_outcome c =
     (if response_StatusCode c \<noteq> 0
      then (if response_StatusCode c < 400 then ''success'' else ''failure'')
      else [])"

definition Context_reset :: "Context \<Rightarrow> Context" where
  "Context_reset c =
     \<lparr>captureBodyMask = captureBodyMask c, ctx_captureHeaders = False,
      ctx_sanitizedFieldNames = [], response_StatusCode = 0\<rparr>"

text \<open>
  Modelled from the spec: \<^verbatim>\<open>compressedSpan\<close> is declared outside the files at hand. The
  spec: at most one pending composite span per transaction, the cached span; transaction.go
  assigns its \<^verbatim>\<open>options\<close>. \<^verbatim>\<open>evict\<close> empties the slot and returns the span that was pending,
  if any. The type of spans is a parameter.
\<close>

record 'span compressedSpan =
  cache :: "'span option"
  options :: compressionOptions

definition evict :: "'span compressedSpan \<Rightarrow> 'span option \<times> 'span compressedSpan" where
  "evict cs = (cache cs, cs\<lparr>cache := None\<rparr>)"

text \<open>
  \<^verbatim>\<open>spanTimingsMap\<close> is declared outside the files at hand; its keys are taken to be pairs
  of strings. Its \<^verbatim>\<open>reset\<close>, like the one of \<^verbatim>\<open>droppedSpanTimingsMap\<close>, deletes every key.
\<close>

type_synonym spanTimingsMap = "string \<times> string \<rightharpoonup> spanTiming"

definition droppedSpanTimingsMap_reset :: "droppedSpanTimingsMap \<Rightarrow> droppedSpanTimingsMap" where
  "droppedSpanTimingsMap_reset m = Map.empty"

definition spanTimingsMap_reset :: "spanTimingsMap \<Rightarrow> spanTimingsMap" where
  "spanTimingsMap_reset m = Map.empty"

text \<open>
  \<^verbatim>\<open>type TransactionData struct\<close>. The fields that have the name of a configuration value
  carry the prefix \<open>tx_\<close>. The two locks and the \<^verbatim>\<open>childrenTimer\<close> are left out: one caller
  at a time runs the functions below. \<^verbatim>\<open>rand\<close>, the source of random numbers, is the
  stream of the numbers that \<^verbatim>\<open>Uint64()\<close> will return. Times are numbers of nanoseconds
  since the zero \<^verbatim>\<open>time.Time\<close>.
\<close>

record 'span TransactionData =
  Name :: string
  Type :: string
  Duration :: time_Duration
  Context :: Context
  Result :: string
  Outcome :: string
  tx_recording :: bool
  tx_maxSpans :: int
  tx_exitSpanMinDuration :: time_Duration
  tx_spanStackTraceMinDuration :: time_Duration
  tx_stackTraceLimit :: int
  breakdownMetricsEnabled :: bool
  tx_propagateLegacyHeader :: bool
  timestamp :: int
  links :: "SpanLink list"
  errorCaptured :: bool
  spansCreated :: int
  spansDropped :: int
  spanTimings :: spanTimingsMap
  droppedSpansStats :: droppedSpanTimingsMap
  rand :: "64 word stream"
  compressedSpan :: "'span compressedSpan"

definition zero_compressionOptions :: compressionOptions where
  "zero_compressionOptions =
     \<lparr>enabled = False, exactMatchMaxDuration = 0, sameKindMaxDuration = 0\<rparr>"

text \<open>
  The data that \<^verbatim>\<open>StartTransactionOptions\<close> allocates when the pool has none:
  \<^verbatim>\<open>Duration: -1\<close>, \<^verbatim>\<open>captureBodyMask: CaptureBodyTransactions\<close>, two empty maps and a new
  source of random numbers; every other field has its zero value.
\<close>

definition new_TransactionData :: "64 word stream \<Rightarrow> 'span TransactionData" where
  "new_TransactionData r =
     \<lparr>Name = [], Type = [], Duration = - 1,
      Context = \<lparr>captureBodyMask = CaptureBodyTransactions, ctx_captureHeaders = False,
                 ctx_sanitizedFieldNames = [], response_StatusCode = 0\<rparr>,
      Result = [], Outcome = [], tx_recording = False, tx_maxSpans = 0,
      tx_exitSpanMinDuration = 0, tx_spanStackTraceMinDuration = 0, tx_stackTraceLimit = 0,
      breakdownMetricsEnabled = False, tx_propagateLegacyHeader = False, timestamp = 0,
      links = [], errorCaptured = False, spansCreated = 0, spansDropped = 0,
      spanTimings = Map.empty, droppedSpansStats = Map.empty, rand = r,
      compressedSpan = \<lparr>cache = None, options = zero_compressionOptions\<rparr>\<rparr>"

text \<open>
  \<^verbatim>\<open>
  type Transaction struct {
      tracer       *Tracer
      traceContext TraceContext
      parentID     SpanID
      mu sync.RWMutex
      *TransactionData
  }
  \<close>
  The embedded pointer is the field \<open>txData\<close>, \<open>None\<close> for \<^verbatim>\<open>nil\<close>. The tracer is passed
  to the functions below instead of being a field.
\<close>

record 'span Transaction =
  traceContext :: TraceContext
  parentID :: SpanID
  txData :: "'span TransactionData option"

text \<open>
  What transaction.go uses of the tracer: the current configuration, \<^verbatim>\<open>Active()\<close>,
  \<^verbatim>\<open>breakdownMetrics.enabled\<close>, the pool of transaction data, the channel \<^verbatim>\<open>events\<close> with its
  capacity, and the counter of dropped transactions in \<^verbatim>\<open>stats\<close>. An event for a transaction
  holds the transaction and its data. \<open>breakdownMetrics_recorded\<close> lists the data that
  \<^verbatim>\<open>breakdownMetrics.recordTransaction\<close> was called with.
\<close>

datatype 'span tracerEvent =
  transactionEvent TraceContext SpanID "'span TransactionData"
  | spanEvent 'span

record 'span Tracer =
  instrumentationConfigInternal :: instrumentationConfig
  active :: bool
  breakdownMetrics_enabled :: bool
  breakdownMetrics_recorded :: "'span TransactionData list"
  transactionDataPool :: "'span TransactionData list"
  events :: "'span tracerEvent list"
  events_cap :: nat
  stats_TransactionsDropped :: "64 word"

subsection \<open>Starting a transaction\<close>

text \<open>
  \<^verbatim>\<open>type TransactionOptions struct\<close>; \<^verbatim>\<open>Start\<close> is a time, 0 for the zero \<^verbatim>\<open>time.Time\<close>.
\<close>

record TransactionOptions =
  opt_TraceContext :: TraceContext
  TransactionID :: SpanID
  Start :: int
  Links :: "SpanLink list"

text \<open>
  Functions that \<^verbatim>\<open>StartTransactionOptions\<close> calls and that are defined outside the files at
  hand: \<^verbatim>\<open>TraceState.Validate\<close> (\<open>True\<close> for a \<^verbatim>\<open>nil\<close> error), \<^verbatim>\<open>roundSampleRate\<close> and
  \<^verbatim>\<open>formatElasticTracestateValue\<close>. They are parameters: every property below holds whatever
  they return.
\<close>

record start_env =
  TraceState_Validate_ok :: "TraceState \<Rightarrow> bool"
  roundSampleRate :: "real \<Rightarrow> real"
  formatElasticTracestateValue :: "real \<Rightarrow> string"

text \<open>
  \<^verbatim>\<open>
  continuationStrategy := instrumentationConfig.continuationStrategy
  if continuationStrategy == "restart_external" {
      if opts.TraceContext.State.haveElastic {
          continuationStrategy = "continue"
      } else {
          continuationStrategy = "restart"
      }
  }
  \<close>
\<close>

definition resolve_strategy :: "string \<Rightarrow> TraceContext \<Rightarrow> string" where
  "resolve_strategy strategy tc =
     (if strategy = ''restart_external''
      then (if haveElastic (State tc) then ''continue'' else ''restart'')
      else strategy)"

text \<open>
  \<^verbatim>\<open>
  if continuationStrategy == "restart" {
      if !opts.TraceContext.Trace.isZero() && !opts.TraceContext.Span.isZero() {
          link := SpanLink{Trace: opts.TraceContext.Trace, Span: opts.TraceContext.Span}
          tx.links = append(tx.links, link)
          shouldRestartTrace = true
      }
  }
  \<close>
  The link that is appended, if any; \<^verbatim>\<open>shouldRestartTrace\<close> is true exactly when there is
  one.
\<close>

definition restart_link :: "string \<Rightarrow> TraceContext \<Rightarrow> SpanLink option" where
  "restart_link strategy tc =
     (if strategy = ''restart'' \<and> \<not> TraceID_isZero (Trace tc) \<and> \<not> SpanID_isZero (Span tc)
      then Some \<lparr>link_Trace = Trace tc, link_Span = Span tc\<rparr>
      else None)"

text \<open>
  The identity of the new transaction:
  \<^verbatim>\<open>
  var root bool
  if opts.TraceContext.Trace.Validate() == nil && !shouldRestartTrace {
      tx.traceContext.Trace = opts.TraceContext.Trace
      tx.traceContext.Options = opts.TraceContext.Options
      if opts.TraceContext.Span.Validate() == nil {
          tx.parentID = opts.TraceContext.Span
      }
      if opts.TransactionID.Validate() == nil {
          tx.traceContext.Span = opts.TransactionID
      } else {
          binary.LittleEndian.PutUint64(tx.traceContext.Span[:], tx.rand.Uint64())
      }
      if opts.TraceContext.State.Validate() == nil {
          tx.traceContext.State = opts.TraceContext.State
      }
  } else {
      root = true
      binary.LittleEndian.PutUint64(tx.traceContext.Trace[:8], tx.rand.Uint64())
      binary.LittleEndian.PutUint64(tx.traceContext.Trace[8:], tx.rand.Uint64())
      if opts.TransactionID.Validate() == nil {
          tx.traceContext.Span = opts.TransactionID
      } else {
          copy(tx.traceContext.Span[:], tx.traceContext.Trace[:])
      }
  }
  \<close>
  The function takes the trace context and the parent of the new \<^verbatim>\<open>Transaction\<close> (both
  zero) and the source of random numbers, and returns them together with \<^verbatim>\<open>root\<close>.
\<close>

definition start_identity :: "start_env \<Rightarrow> TransactionOptions \<Rightarrow> bool \<Rightarrow>
    TraceContext \<Rightarrow> SpanID \<Rightarrow> 64 word stream \<Rightarrow> TraceContext \<times> SpanID \<times> 64 word stream \<times> bool" where
  "start_identity E opts shouldRestartTrace tc pid r =
     (let inbound = opt_TraceContext opts in
      if TraceID_Validate_ok (Trace inbound) \<and> \<not> shouldRestartTrace then
        (let tc1 = tc\<lparr>Trace := Trace inbound, Options := Options inbound\<rparr>;
             pid1 = (if SpanID_Validate_ok (Span inbound) then Span inbound else pid);
             (tc2, r2) = (if SpanID_Validate_ok (TransactionID opts)
                          then (tc1\<lparr>Span := TransactionID opts\<rparr>, r)
                          else (tc1\<lparr>Span := PutUint64 (shd r)\<rparr>, stl r));
             tc3 = (if TraceState_Validate_ok E (State inbound)
                    then tc2\<lparr>State := State inbound\<rparr> else tc2)
         in (tc3, pid1, r2, False))
      else
        (let tc1 = tc\<lparr>Trace := PutUint64 (shd r) @ drop 8 (Trace tc)\<rparr>;
             tc2 = tc1\<lparr>Trace := take 8 (Trace tc1) @ PutUint64 (shd (stl r))\<rparr>;
             tc3 = (if SpanID_Validate_ok (TransactionID opts)
                    then tc2\<lparr>Span := TransactionID opts\<rparr>
                    else tc2\<lparr>Span := take 8 (Trace tc2)\<rparr>)
         in (tc3, pid, stl (stl r), True)))"

text \<open>
  The sampling decision:
  \<^verbatim>\<open>
  if root {
      var result SampleResult
      if instrumentationConfig.sampler != nil {
          result = instrumentationConfig.sampler.Sample(SampleParams{
              TraceContext: tx.traceContext,
          })
          if !result.Sampled {
              result.SampleRate = 0
          }
          sampleRate := roundSampleRate(result.SampleRate)
          tx.traceContext.State = NewTraceState(TraceStateEntry{
              Key:   elasticTracestateVendorKey,
              Value: formatElasticTracestateValue(sampleRate),
          })
      } else {
          result.Sampled = true
      }
      if result.Sampled {
          o := tx.traceContext.Options.WithRecorded(true)
          tx.traceContext.Options = o
      }
  } else {
      tx.traceContext.Options = opts.TraceContext.Options
  }
  \<close>
\<close>

definition start_sampling :: "start_env \<Rightarrow> Sampler option \<Rightarrow> TransactionOptions \<Rightarrow> bool \<Rightarrow>
    TraceContext \<Rightarrow> TraceContext" where
  "start_sampling E smp opts is_root tc =
     (if is_root then
        (let (result, tc1) =
               (case smp of
                  Some s \<Rightarrow>
                    (let result0 = s tc;
                         result1 = (if \<not> Sampled result0 then result0\<lparr>SampleRate := 0\<rparr>
                                    else result0);
                         sampleRate = roundSampleRate E (SampleRate result1)
                     in (result1,
                         tc\<lparr>State := NewTraceState
                              [\<lparr>tse_Key = elasticTracestateVendorKey,
                                tse_Value = formatElasticTracestateValue E sampleRate\<rparr>]\<rparr>))
                | None \<Rightarrow> (\<lparr>Sampled = True, SampleRate = 0\<rparr>, tc))
         in if Sampled result then tc1\<lparr>Options := WithRecorded (Options tc1) True\<rparr> else tc1)
      else tc\<lparr>Options := Options (opt_TraceContext opts)\<rparr>)"

text \<open>
  \<^verbatim>\<open>td, _ := t.transactionDataPool.Get().(*TransactionData)\<close>: an item of the pool, or
  \<^verbatim>\<open>nil\<close>, and then new data, whose source of random numbers \<open>new_rand\<close> is seeded from
  outside. The pool is a list; \<^verbatim>\<open>Get\<close> takes its first item and \<^verbatim>\<open>Put\<close> adds one in front.
\<close>

definition pool_Get :: "'span TransactionData list \<Rightarrow> 64 word stream \<Rightarrow>
    'span TransactionData \<times> 'span TransactionData list" where
  "pool_Get pool new_rand =
     (case pool of [] \<Rightarrow> (new_TransactionData new_rand, []) | td # rest \<Rightarrow> (td, rest))"

text \<open>
  \<^verbatim>\<open>StartTransactionOptions\<close>. \<open>now\<close> is what \<^verbatim>\<open>time.Now()\<close> returns. The function returns
  the tracer (its pool may have lost an item) and the new transaction. A tracer that is not
  recording or not active returns the transaction right after \<^verbatim>\<open>tx.recording\<close> is set, with
  a zero trace context.
\<close>

definition StartTransactionOptions :: "start_env \<Rightarrow> 'span Tracer \<Rightarrow> string \<Rightarrow> string \<Rightarrow>
    TransactionOptions \<Rightarrow> 64 word stream \<Rightarrow> int \<Rightarrow> 'span Tracer \<times> 'span Transaction" where
  "StartTransactionOptions E t name transactionType opts new_rand now =
     (let (td, pool) = pool_Get (transactionDataPool t) new_rand;
          t1 = t\<lparr>transactionDataPool := pool\<rparr>;
          cfg = cfg_values (instrumentationConfigInternal t);
          td1 = td\<lparr>tx_recording := recording cfg\<rparr>
      in if \<not> tx_recording td1 \<or> \<not> active t then
           (t1, \<lparr>traceContext = zero_TraceContext, parentID = zero_SpanID, txData = Some td1\<rparr>)
         else
           (let td2 = td1\<lparr>tx_maxSpans := maxSpans cfg,
                         compressedSpan := (compressedSpan td1)\<lparr>options := compressionOptions cfg\<rparr>,
                         tx_exitSpanMinDuration := exitSpanMinDuration cfg,
                         tx_spanStackTraceMinDuration := spanStackTraceMinDuration cfg,
                         tx_stackTraceLimit := stackTraceLimit cfg,
                         Context := (Context td1)\<lparr>ctx_captureHeaders := captureHeaders cfg,
                                                 ctx_sanitizedFieldNames := sanitizedFieldNames cfg\<rparr>,
                         tx_propagateLegacyHeader := propagateLegacyHeader cfg,
                         breakdownMetricsEnabled := breakdownMetrics_enabled t\<rparr>;
                strategy = resolve_strategy (continuationStrategy cfg) (opt_TraceContext opts);
                link = restart_link strategy (opt_TraceContext opts);
                td3 = (case link of Some l \<Rightarrow> td2\<lparr>links := links td2 @ [l]\<rparr> | None \<Rightarrow> td2);
                (tc, pid, r, is_root) =
                   start_identity E opts (link \<noteq> None) zero_TraceContext zero_SpanID (rand td3);
                tc' = start_sampling E (sampler cfg) opts is_root tc;
                td4 = td3\<lparr>rand := r, Name := name, Type := transactionType,
                          timestamp := (if Start opts = 0 then now else Start opts),
                          links := links td3 @ Links opts\<rparr>
            in (t1, \<lparr>traceContext = tc', parentID = pid, txData = Some td4\<rparr>)))"

subsection \<open>Ending a transaction\<close>

text \<open>\<^verbatim>\<open>ended\<close>: \<^verbatim>\<open>return tx.TransactionData == nil\<close>.\<close>

definition ended :: "'span Transaction \<Rightarrow> bool" where
  "ended tx = (txData tx = None)"

text \<open>
  \<^verbatim>\<open>
  func (td *TransactionData) reset(tracer *Tracer) {
      *td = TransactionData{
          Context:           td.Context,
          Duration:          -1,
          rand:              td.rand,
          spanTimings:       td.spanTimings,
          droppedSpansStats: td.droppedSpansStats,
      }
      td.Context.reset()
      td.spanTimings.reset()
      td.droppedSpansStats.reset()
      tracer.transactionDataPool.Put(td)
  }
  \<close>
\<close>

definition reset_data :: "'span TransactionData \<Rightarrow> 'span TransactionData" where
  "reset_data td =
     (new_TransactionData (rand td))
       \<lparr>Context := Context_reset (Context td),
        spanTimings := spanTimingsMap_reset (spanTimings td),
        droppedSpansStats := droppedSpanTimingsMap_reset (droppedSpansStats td)\<rparr>"

definition reset :: "'span TransactionData \<Rightarrow> 'span Tracer \<Rightarrow> 'span Tracer" where
  "reset td t = t\<lparr>transactionDataPool := reset_data td # transactionDataPool t\<rparr>"

text \<open>
  \<^verbatim>\<open>
  func (tx *Transaction) enqueue() {
      event := tracerEvent{eventType: transactionEvent}
      event.tx.Transaction = tx
      event.tx.TransactionData = tx.TransactionData
      select {
      case tx.tracer.events <- event:
      default:
          // Enqueuing a transaction should never block.
          tx.tracer.breakdownMetrics.recordTransaction(tx.TransactionData)
          tx.tracer.stats.accumulate(TracerStats{TransactionsDropped: 1})
          tx.reset(tx.tracer)
      }
  }
  \<close>
  The send succeeds when the channel has room.
\<close>

definition enqueue :: "'span Transaction \<Rightarrow> 'span TransactionData \<Rightarrow> 'span Tracer \<Rightarrow> 'span Tracer" where
  "enqueue tx td t =
     (if length (events t) < events_cap t
      then t\<lparr>events := events t @ [transactionEvent (traceContext tx) (parentID tx) td]\<rparr>
      else reset td
             (t\<lparr>breakdownMetrics_recorded := breakdownMetrics_recorded t @ [td],
                stats_TransactionsDropped := stats_TransactionsDropped t + 1\<rparr>))"

text \<open>
  \<^verbatim>\<open>
  func (tx *Transaction) Discard() {
      tx.mu.Lock()
      defer tx.mu.Unlock()
      if tx.ended() {
          return
      }
      tx.reset(tx.tracer)
      tx.TransactionData = nil
  }
  \<close>
\<close>

definition Discard :: "'span Tracer \<Rightarrow> 'span Transaction \<Rightarrow> 'span Tracer \<times> 'span Transaction" where
  "Discard t tx =
     (case txData tx of
        None \<Rightarrow> (t, tx)
      | Some td \<Rightarrow> (reset td t, tx\<lparr>txData := None\<rparr>))"

text \<open>
  The outcome that \<^verbatim>\<open>End\<close> gives a recording transaction:
  \<^verbatim>\<open>
  if tx.Outcome == "" {
      tx.Outcome = tx.Context.outcome()
      if tx.Outcome == "" {
          if tx.errorCaptured {
              tx.Outcome = "failure"
          } else {
              tx.Outcome = "success"
          }
      }
  }
  \<close>
\<close>

definition resolve_Outcome :: "'span TransactionData \<Rightarrow> 'span TransactionData" where
  "resolve_Outcome td =
     (if Outcome td = [] then
        (let td1 = td\<lparr>Outcome := Context_outcome (Context td)\<rparr> in
         if Outcome td1 = [] then
           (if errorCaptured td1 then td1\<lparr>Outcome := ''failure''\<rparr>
            else td1\<lparr>Outcome := ''success''\<rparr>)
         else td1)
      else td)"

text \<open>
  \<^verbatim>\<open>
  func (tx *Transaction) End() {
      tx.mu.Lock()
      defer tx.mu.Unlock()
      if tx.ended() {
          return
      }
      if tx.Type == "" {
          tx.Type = "custom"
      }
      if tx.recording {
          if tx.Duration < 0 {
              tx.Duration = time.Since(tx.timestamp)
          }
          if tx.Outcome == "" { ... }
          tx.TransactionData.mu.Lock()
          if evictedSpan := tx.compressedSpan.evict(); evictedSpan != nil {
              evictedSpan.end()
          }
          tx.TransactionData.mu.Unlock()
          tx.enqueue()
      } else {
          tx.reset(tx.tracer)
      }
      tx.TransactionData = nil
  }
  \<close>
  \<open>now\<close> is the time at which \<^verbatim>\<open>time.Since\<close> reads the clock. \<open>Span_end\<close> is the method
  \<^verbatim>\<open>end\<close> of a span, defined outside the files at hand: a parameter, which may change the
  data of the transaction and the tracer in any way.
\<close>

definition End :: "('span \<Rightarrow> 'span TransactionData \<times> 'span Tracer \<Rightarrow> 'span TransactionData \<times> 'span Tracer) \<Rightarrow>
    int \<Rightarrow> 'span Tracer \<Rightarrow> 'span Transaction \<Rightarrow> 'span Tracer \<times> 'span Transaction" where
  "End Span_end now t tx =
     (case txData tx of
        None \<Rightarrow> (t, tx)
      | Some td \<Rightarrow>
          (let td1 = (if Type td = [] then td\<lparr>Type := ''custom''\<rparr> else td) in
           if tx_recording td1 then
             (let td2 = (if Duration td1 < 0 then td1\<lparr>Duration := now - timestamp td1\<rparr> else td1);
                  td3 = resolve_Outcome td2;
                  (evictedSpan, cs) = evict (compressedSpan td3);
                  td4 = td3\<lparr>compressedSpan := cs\<rparr>;
                  (td5, t1) = (case evictedSpan of
                                 Some s \<Rightarrow> Span_end s (td4, t)
                               | None \<Rightarrow> (td4, t))
              in (enqueue tx td5 t1, tx\<lparr>txData := None\<rparr>))
           else (reset td1 t, tx\<lparr>txData := None\<rparr>)))"

section \<open>Example values\<close>

text \<open>
  A configuration with the default values of config.go, a tracer that uses it, and requests
  to start a transaction; the theorems below are run on them.
\<close>

definition example_values :: instrumentationConfigValues where
  "example_values =
     \<lparr>recording = True, captureBody = CaptureBodyOff, captureHeaders = True, maxSpans = 500,
      sampler = None, spanStackTraceMinDuration = 5000000, exitSpanMinDuration = 1000000,
      continuationStrategy = ''continue'', stackTraceLimit = 50, propagateLegacyHeader = True,
      sanitizedFieldNames = [''password''], ignoreTransactionURLs = [],
      compressionOptions =
        \<lparr>enabled = True, exactMatchMaxDuration = 50000000, sameKindMaxDuration = 0\<rparr>\<rparr>"

text \<open>
  The functions for the local configuration of two settings, as a caller of
  \<^verbatim>\<open>setLocalInstrumentationConfig\<close> passes them: each writes the local value of its setting.
\<close>

definition example_local ::
  "string \<rightharpoonup> (instrumentationConfigValues \<Rightarrow> instrumentationConfigValues)" where
  "example_local =
     [envMaxSpans \<mapsto> (\<lambda>c. c\<lparr>maxSpans := 500\<rparr>),
      envCaptureBody \<mapsto> (\<lambda>c. c\<lparr>captureBody := CaptureBodyOff\<rparr>)]"

definition example_config :: instrumentationConfig where
  "example_config = \<lparr>cfg_values = example_values, local = example_local, remote = {}\<rparr>"

definition example_tracer :: "nat Tracer" where
  "example_tracer =
     \<lparr>instrumentationConfigInternal = example_config, active = True,
      breakdownMetrics_enabled = True, breakdownMetrics_recorded = [],
      transactionDataPool = [], events = [], events_cap = 1, stats_TransactionsDropped = 0\<rparr>"

definition with_strategy :: "string \<Rightarrow> nat Tracer \<Rightarrow> nat Tracer" where
  "with_strategy s t =
     t\<lparr>instrumentationConfigInternal :=
         (instrumentationConfigInternal t)
           \<lparr>cfg_values := (cfg_values (instrumentationConfigInternal t))\<lparr>continuationStrategy := s\<rparr>\<rparr>\<rparr>"

definition with_sampler :: "Sampler \<Rightarrow> nat Tracer \<Rightarrow> nat Tracer" where
  "with_sampler s t =
     t\<lparr>instrumentationConfigInternal :=
         (instrumentationConfigInternal t)
           \<lparr>cfg_values := (cfg_values (instrumentationConfigInternal t))\<lparr>sampler := Some s\<rparr>\<rparr>\<rparr>"

definition example_env :: start_env where
  "example_env =
     \<lparr>TraceState_Validate_ok = (\<lambda>s. True), roundSampleRate = (\<lambda>x. x),
      formatElasticTracestateValue = (\<lambda>x. if x = 0 then ''s:0'' else ''s:1'')\<rparr>"

text \<open>
  An inbound trace context with a valid trace and span, one with a valid trace and a zero
  span, and options that carry them; \<open>no_inbound\<close> carries no trace context at all.
\<close>

definition inbound_valid :: TraceContext where
  "inbound_valid =
     \<lparr>Trace = replicate 16 1, Span = replicate 8 2, Options = 1, State = zero_TraceState\<rparr>"

definition inbound_no_span :: TraceContext where
  "inbound_no_span =
     \<lparr>Trace = replicate 16 1, Span = zero_SpanID, Options = 1, State = zero_TraceState\<rparr>"

definition opts_of :: "TraceContext \<Rightarrow> TransactionOptions" where
  "opts_of tc = \<lparr>opt_TraceContext = tc, TransactionID = zero_SpanID, Start = 0, Links = []\<rparr>"

definition no_inbound :: TransactionOptions where
  "no_inbound = opts_of zero_TraceContext"

text \<open>A sampler that samples nothing and reports the rate one half.\<close>

definition never_sampler :: Sampler where
  "never_sampler tc = \<lparr>Sampled = False, SampleRate = 1 / 2\<rparr>"

text \<open>
  A recording transaction whose context holds the status 404, and one that is not
  recording; \<open>no_span_end\<close> is an \<^verbatim>\<open>end\<close> of spans that changes nothing.
\<close>

definition example_data :: "nat TransactionData" where
  "example_data =
     (new_TransactionData (sconst 7))
       \<lparr>Name := ''GET /'', tx_recording := True,
        Context := \<lparr>captureBodyMask = CaptureBodyTransactions, ctx_captureHeaders = True,
                    ctx_sanitizedFieldNames = [], response_StatusCode = 404\<rparr>\<rparr>"

definition example_tx :: "nat Transaction" where
  "example_tx = \<lparr>traceContext = inbound_valid, parentID = zero_SpanID, txData = Some example_data\<rparr>"

definition no_span_end :: "nat \<Rightarrow> nat TransactionData \<times> nat Tracer \<Rightarrow> nat TransactionData \<times> nat Tracer" where
  "no_span_end s x = x"

text \<open>
  Parsers that read the strings of the examples below and reject every other string, a
  state that holds the example configuration, and two sets of remote settings: in the
  second one the number of spans does not parse.
\<close>

definition example_parsers :: parsers where
  "example_parsers =
     \<lparr>Atoi = (\<lambda>s. if s = ''10'' then Some 10 else None),
      ParseBool = (\<lambda>s. if s = ''true'' then Some True else if s = ''false'' then Some False else None),
      ParseFloat = (\<lambda>s. if s = ''1'' then Some 1 else None),
      ParseDuration = (\<lambda>s. if s = ''1ms'' then Some 1000000 else None),
      ParseDurationOptions = (\<lambda>s. if s = ''1ms'' then Some 1000000 else None),
      ParseWildcardPatterns = (\<lambda>s. [s]),
      NewRatioSampler = (\<lambda>r tc. \<lparr>Sampled = True, SampleRate = r\<rparr>),
      ParseLogLevel = (\<lambda>s. if s = ''debug'' then Some 0 else None)\<rparr>"

definition example_world :: config_world where
  "example_world = \<lparr>ic = example_config, dl_level = 0\<rparr>"

definition example_batch :: "(string \<times> string) list" where
  "example_batch = [(''transaction_max_spans'', ''10''), (''capture_body'', ''all'')]"

definition bad_batch :: "(string \<times> string) list" where
  "bad_batch = [(''transaction_max_spans'', ''abc''), (''capture_body'', ''all'')]"

text \<open>
  A set of remote settings with a valid continuation strategy and a number of spans that
  does not parse; the state after a first call that sets the two settings of
  \<open>example_batch\<close> remotely; and a recording transaction with a pending compressed span.
\<close>

definition strategy_batch :: "(string \<times> string) list" where
  "strategy_batch = [(''trace_continuation_strategy'', ''restart''), (''transaction_max_spans'', ''abc'')]"

definition remote_world :: "loopvars \<Rightarrow> config_world" where
  "remote_world lv = run_batches lv example_parsers False example_world [(None, [], example_batch)]"

definition pending_data :: "nat TransactionData" where
  "pending_data = example_data\<lparr>compressedSpan := \<lparr>cache = Some 3, options = zero_compressionOptions\<rparr>\<rparr>"

definition pending_tx :: "nat Transaction" where
  "pending_tx = \<lparr>traceContext = inbound_valid, parentID = zero_SpanID, txData = Some pending_data\<rparr>"

section \<open>Properties of the span context\<close>

subsection \<open>\<^verbatim>\<open>SetHTTPRequest\<close> on the example URLs\<close>

lemma DestinationAddr_443:
  "DestinationAddr \<lparr>Scheme = ''https'', User = None, Host = ''example.com:443'', Path = ''/x''\<rparr>
     = (''example.com'', 443)"
  by (simp add: DestinationAddr_def Let_def strip_brackets_def port_of_digits_def is_digit_def)

lemma DestinationAddr_8443:
  "DestinationAddr \<lparr>Scheme = ''https'', User = None, Host = ''example.com:8443'', Path = ''/x''\<rparr>
     = (''example.com'', 8443)"
  by (simp add: DestinationAddr_def Let_def strip_brackets_def port_of_digits_def is_digit_def)

lemma destinationService_of_443:
  "destinationService_of ''https'' ''example.com:443'' 443 =
     \<lparr>arg_Name = ''https://example.com'', arg_Resource = ''example.com:443''\<rparr>"
  by (simp add: destinationService_of_def Let_def SchemeDefaultPort_def URL_String_def)

lemma destinationService_of_8443:
  "destinationService_of ''https'' ''example.com:8443'' 8443 =
     \<lparr>arg_Name = ''https://example.com:8443'', arg_Resource = ''example.com:8443''\<rparr>"
  by (simp add: destinationService_of_def Let_def SchemeDefaultPort_def URL_String_def)

text \<open>
  Claim C1, as stated, fails: for \<^verbatim>\<open>https://example.com:443/x\<close> the destination-service
  resource is \<^verbatim>\<open>example.com:443\<close>. It holds the port; it is not the bare host.
\<close>

theorem SetHTTPRequest_resource_counterexample:
  "Port (c_destination (SetHTTPRequest zero_SpanContext req_443)) = 443 \<and>
   dsvc_Resource (destinationService (SetHTTPRequest zero_SpanContext req_443)) = ''example.com:443'' \<and>
   dsvc_Resource (destinationService (SetHTTPRequest zero_SpanContext req_443)) \<noteq> ''example.com''"
  by (simp add: SetHTTPRequest_def req_443_def DestinationAddr_443 destinationService_of_443
      SetDestinationAddress_def SetDestinationService_def Let_def truncateString_def)

text \<open>
  Claim C1, amended. For the request URL \<^verbatim>\<open>https://example.com:443/x\<close>, on any span
  context, \<^verbatim>\<open>SetHTTPRequest\<close> sets the destination address to \<^verbatim>\<open>example.com\<close> and the port
  to 443, the destination-service name to \<^verbatim>\<open>https://example.com\<close> (the default port is
  omitted from the name) and the destination-service resource to \<^verbatim>\<open>example.com:443\<close> (the
  resource keeps the port). For the same URL with port 8443 the name,
  \<^verbatim>\<open>https://example.com:8443\<close>, and the resource, \<^verbatim>\<open>example.com:8443\<close>, both keep the port.
\<close>

theorem SetHTTPRequest_example:
  "Address (c_destination (SetHTTPRequest c req_443)) = ''example.com'' \<and>
   Port (c_destination (SetHTTPRequest c req_443)) = 443 \<and>
   dsvc_Name (destinationService (SetHTTPRequest c req_443)) = ''https://example.com'' \<and>
   dsvc_Resource (destinationService (SetHTTPRequest c req_443)) = ''example.com:443'' \<and>
   Address (c_destination (SetHTTPRequest c req_8443)) = ''example.com'' \<and>
   Port (c_destination (SetHTTPRequest c req_8443)) = 8443 \<and>
   dsvc_Name (destinationService (SetHTTPRequest c req_8443)) = ''https://example.com:8443'' \<and>
   dsvc_Resource (destinationService (SetHTTPRequest c req_8443)) = ''example.com:8443''"
  by (simp add: SetHTTPRequest_def req_443_def req_8443_def DestinationAddr_443 DestinationAddr_8443
      destinationService_of_443 destinationService_of_8443
      SetDestinationAddress_def SetDestinationService_def Let_def truncateString_def)

theorem SetHTTPRequest_example_witness:
  "Address (c_destination (SetHTTPRequest zero_SpanContext req_443)) = ''example.com'' \<and>
   dsvc_Name (destinationService (SetHTTPRequest zero_SpanContext req_443)) = ''https://example.com'' \<and>
   dsvc_Resource (destinationService (SetHTTPRequest zero_SpanContext req_8443)) = ''example.com:8443''"
  using SetHTTPRequest_example [of zero_SpanContext] by simp

subsection \<open>When \<^verbatim>\<open>build\<close> returns \<^verbatim>\<open>nil\<close>\<close>

lemma run_call_model:
  "model (run_call c x) = (model c)\<lparr>Service := Service (model c) \<or> (\<exists>svc. x = Call_SetServiceTarget svc)\<rparr>"
  by (cases x) (simp_all add: SetServiceTarget_def SetOTelAttributes_def SetOTelSpanKind_def)

lemma run_calls_frame:
  "Tags (model (run_calls c calls)) = Tags (model c) \<and>
   Message (model (run_calls c calls)) = Message (model c) \<and>
   Database (model (run_calls c calls)) = Database (model c) \<and>
   HTTP (model (run_calls c calls)) = HTTP (model c) \<and>
   Destination (model (run_calls c calls)) = Destination (model c)"
  unfolding run_calls_def
  by (induction calls arbitrary: c) (simp_all add: run_call_model)

lemma build_run_calls: "build (run_calls c calls) = None \<longleftrightarrow> build c = None"
  using run_calls_frame [of c calls] by (simp add: build_def)

lemma build_zero: "build zero_SpanContext = None"
  by (simp add: build_def zero_SpanContext_def zero_model_SpanContext_def)

lemma run_calls_Service:
  "Service (model (run_calls c calls)) =
     (Service (model c) \<or> (\<exists>svc. Call_SetServiceTarget svc \<in> set calls))"
  unfolding run_calls_def
  by (induction calls arbitrary: c) (auto simp add: run_call_model)

lemma run_call_otel:
  "(otel (run_call c x) \<noteq> None) =
     (otel c \<noteq> None \<or> (\<exists>m. x = Call_SetOTelAttributes m) \<or> (\<exists>k. x = Call_SetOTelSpanKind k))"
  by (cases x) (simp_all add: SetServiceTarget_def SetOTelAttributes_def SetOTelSpanKind_def)

lemma run_calls_otel:
  "(otel (run_calls c calls) \<noteq> None) =
     (otel c \<noteq> None \<or> (\<exists>m. Call_SetOTelAttributes m \<in> set calls) \<or>
      (\<exists>k. Call_SetOTelSpanKind k \<in> set calls))"
  unfolding run_calls_def
proof (induction calls arbitrary: c)
  case Nil
  then show ?case by simp
next
  case (Cons x calls)
  show ?case
    unfolding foldl_Cons Cons.IH run_call_otel by auto
qed

text \<open>
  Claim C10. \<^verbatim>\<open>build\<close> returns a context (not \<^verbatim>\<open>nil\<close>) exactly when the tags are not empty
  or one of the pointers to the message, database, HTTP or destination sub-context is set.
  In particular, after any sequence of calls of \<^verbatim>\<open>SetServiceTarget\<close>, \<^verbatim>\<open>SetOTelAttributes\<close>
  and \<^verbatim>\<open>SetOTelSpanKind\<close> alone, on a new or a reset span context, \<^verbatim>\<open>build\<close> still
  returns \<^verbatim>\<open>nil\<close>, although the service pointer is set as soon as \<^verbatim>\<open>SetServiceTarget\<close> was
  among the calls, and the OpenTelemetry data as soon as one of the other two was: \<^verbatim>\<open>build\<close>
  hands none of it on.
\<close>

theorem build_nil_iff:
  "(build c \<noteq> None) =
     (Tags (model c) \<noteq> [] \<or> Message (model c) \<or> Database (model c) \<or> HTTP (model c) \<or>
      Destination (model c)) \<and>
   build (run_calls zero_SpanContext calls) = None \<and>
   build (run_calls (SpanContext_reset c) calls) = None \<and>
   Service (model (run_calls zero_SpanContext calls)) =
     (\<exists>svc. Call_SetServiceTarget svc \<in> set calls) \<and>
   (otel (run_calls zero_SpanContext calls) \<noteq> None) =
     ((\<exists>m. Call_SetOTelAttributes m \<in> set calls) \<or> (\<exists>k. Call_SetOTelSpanKind k \<in> set calls))"
proof -
  have a: "(build c \<noteq> None) =
     (Tags (model c) \<noteq> [] \<or> Message (model c) \<or> Database (model c) \<or> HTTP (model c) \<or>
      Destination (model c))"
    by (simp add: build_def)
  have b: "build (run_calls zero_SpanContext calls) = None"
    by (simp add: build_run_calls build_zero)
  have c: "build (run_calls (SpanContext_reset c) calls) = None"
    by (simp add: build_run_calls build_zero SpanContext_reset_def)
  have d: "Service (model (run_calls zero_SpanContext calls)) =
     (\<exists>svc. Call_SetServiceTarget svc \<in> set calls)"
    by (simp add: run_calls_Service zero_SpanContext_def zero_model_SpanContext_def)
  have e: "(otel (run_calls zero_SpanContext calls) \<noteq> None) =
     ((\<exists>m. Call_SetOTelAttributes m \<in> set calls) \<or> (\<exists>k. Call_SetOTelSpanKind k \<in> set calls))"
    unfolding run_calls_otel by (simp add: zero_SpanContext_def)
  from a b c d e show ?thesis by blast
qed

theorem build_nil_iff_witness:
  "build (SetHTTPStatusCode zero_SpanContext 200) \<noteq> None \<and>
   build (run_calls zero_SpanContext
      [Call_SetServiceTarget \<lparr>arg_target_Type = ''db'', arg_target_Name = ''orders''\<rparr>,
       Call_SetOTelSpanKind ''CLIENT'']) = None \<and>
   Service (model (run_calls zero_SpanContext
      [Call_SetServiceTarget \<lparr>arg_target_Type = ''db'', arg_target_Name = ''orders''\<rparr>,
       Call_SetOTelSpanKind ''CLIENT'']))"
  using build_nil_iff [of "SetHTTPStatusCode zero_SpanContext 200"
      "[Call_SetServiceTarget \<lparr>arg_target_Type = ''db'', arg_target_Name = ''orders''\<rparr>,
        Call_SetOTelSpanKind ''CLIENT'']"]
  by (simp add: SetHTTPStatusCode_def)

section \<open>Properties of the remote configuration\<close>

subsection \<open>The loops compute the lists of the entries\<close>

lemma captured_PerIteration: "captured PerIteration own final = own"
  by (simp add: captured_def)

lemma captured_PerLoop: "captured PerLoop own final = final"
  by (simp add: captured_def)

lemma attrs_loop_eq:
  "fst (attrs_loop lv P logger dl old vf attrs) = valid_updates lv P logger dl old vf attrs \<and>
   fst (snd (attrs_loop lv P logger dl old vf attrs)) = kept_attrs lv P logger dl old vf attrs"
proof (induction attrs)
  case Nil
  show ?case by (simp add: valid_updates_def kept_attrs_def List.map_filter_simps)
next
  case (Cons kv attrs)
  obtain k v where kv: "kv = (k, v)" by (cases kv) auto
  obtain us kept lg where a: "attrs_loop lv P logger dl old vf attrs = (us, kept, lg)"
    by (cases "attrs_loop lv P logger dl old vf attrs") auto
  from Cons.IH a have ih: "us = valid_updates lv P logger dl old vf attrs"
      "kept = kept_attrs lv P logger dl old vf attrs"
    by simp_all
  show ?case
  proof (cases "map_of old k = Some v")
    case True
    then show ?thesis
      by (simp add: kv a ih valid_updates_def kept_attrs_def List.map_filter_simps)
  next
    case False
    then show ?thesis
      by (cases "parse_attr P logger dl k v (captured lv v vf)")
        (simp_all add: kv a ih valid_updates_def kept_attrs_def List.map_filter_simps)
  qed
qed

lemma attrs_loop_log:
  assumes "(k, v) \<in> set attrs" "map_of old k \<noteq> Some v"
    "parse_attr P logger dl k v (captured lv v vf) = Reject e"
  shows "set (emit logger e) \<subseteq> set (snd (snd (attrs_loop lv P logger dl old vf attrs)))"
  using assms(1)
proof (induction attrs)
  case Nil
  then show ?case by simp
next
  case (Cons kv attrs)
  obtain k' v' where kv: "kv = (k', v')" by (cases kv) auto
  obtain us kept lg where a: "attrs_loop lv P logger dl old vf attrs = (us, kept, lg)"
    by (cases "attrs_loop lv P logger dl old vf attrs") auto
  show ?case
  proof (cases "(k, v) = (k', v')")
    case True
    with assms(2,3) show ?thesis by (simp add: kv a)
  next
    case False
    with Cons.prems kv have "(k, v) \<in> set attrs" by auto
    then have "set (emit logger e) \<subseteq> set lg" using Cons.IH a by simp
    then show ?thesis
      by (cases "parse_attr P logger dl k' v' (captured lv v' vf)") (auto simp add: kv a)
  qed
qed

lemma old_loop_updates:
  "fst (old_loop lv logger attrs kf old) = reverts lv kf attrs old"
proof (induction old)
  case Nil
  show ?case by (simp add: reverts_def)
next
  case (Cons kv old)
  obtain k v where kv: "kv = (k, v)" by (cases kv) auto
  obtain us lg where a: "old_loop lv logger attrs kf old = (us, lg)"
    by (cases "old_loop lv logger attrs kf old") auto
  from Cons.IH a have ih: "us = reverts lv kf attrs old" by simp
  show ?case
    by (simp add: kv a ih reverts_def map_of_eq_None_iff)
qed

lemma updateRemoteConfig_eq:
  "updateRemoteConfig lv P logger dl w old attrs =
     ((if valid_updates lv P logger dl old (last_val attrs) attrs @
          reverts lv (last_key old) (kept_attrs lv P logger dl old (last_val attrs) attrs) old \<noteq> []
       then apply_updates (envName ` fst ` set (kept_attrs lv P logger dl old (last_val attrs) attrs))
              (valid_updates lv P logger dl old (last_val attrs) attrs @
               reverts lv (last_key old) (kept_attrs lv P logger dl old (last_val attrs) attrs) old) w
       else w),
      kept_attrs lv P logger dl old (last_val attrs) attrs,
      snd (snd (attrs_loop lv P logger dl old (last_val attrs) attrs)) @
      snd (old_loop lv logger (kept_attrs lv P logger dl old (last_val attrs) attrs) (last_key old) old))"
proof -
  let ?vf = "last_val attrs" and ?kf = "last_key old"
  obtain us1 attrs' lg1 where a: "attrs_loop lv P logger dl old ?vf attrs = (us1, attrs', lg1)"
    by (cases "attrs_loop lv P logger dl old ?vf attrs") auto
  obtain us2 lg2 where b: "old_loop lv logger attrs' ?kf old = (us2, lg2)"
    by (cases "old_loop lv logger attrs' ?kf old") auto
  have u1: "us1 = valid_updates lv P logger dl old ?vf attrs"
    and k: "attrs' = kept_attrs lv P logger dl old ?vf attrs"
    using attrs_loop_eq [of lv P logger dl old ?vf attrs] by (simp_all add: a)
  have u2: "us2 = reverts lv ?kf attrs' old"
    using old_loop_updates [of lv logger attrs' ?kf old] by (simp add: b)
  show ?thesis
    unfolding updateRemoteConfig_def a b
    by (simp add: u1 u2 k [symmetric] b updateInstrumentationConfig_def)
qed

subsection \<open>No update changes the local functions\<close>

lemma parse_attr_Apply:
  assumes "parse_attr P logger dl k v vc = Apply u"
  shows "(\<exists>f. u = set_values f) \<or> (\<exists>l. u = SetLevel l)"
  using assms
  by (simp add: parse_attr_def Let_def split: if_splits option.splits) blast+

lemma run_update_local:
  assumes "(\<exists>f. u = set_values f) \<or> (\<exists>l. u = SetLevel l) \<or> (\<exists>k. u = revert_update k)"
  shows "local (ic (run_update w u)) = local (ic w)"
  using assms by (auto simp add: set_values_def revert_update_def split: option.splits)

lemma foldl_run_update_local:
  assumes "\<And>u. u \<in> set us \<Longrightarrow>
     (\<exists>f. u = set_values f) \<or> (\<exists>l. u = SetLevel l) \<or> (\<exists>k. u = revert_update k)"
  shows "local (ic (foldl run_update w us)) = local (ic w)"
  using assms
proof (induction us arbitrary: w)
  case Nil
  show ?case by simp
next
  case (Cons u us)
  have "local (ic (foldl run_update (run_update w u) us)) = local (ic (run_update w u))"
    by (rule Cons.IH) (simp add: Cons.prems)
  also have "\<dots> = local (ic w)"
    by (rule run_update_local) (simp add: Cons.prems)
  finally show ?case by simp
qed

lemma valid_updates_shape:
  assumes "u \<in> set (valid_updates lv P logger dl old vf attrs)"
  shows "(\<exists>f. u = set_values f) \<or> (\<exists>l. u = SetLevel l)"
proof -
  from assms obtain kv where "kv \<in> set attrs"
    and s: "attr_update lv P logger dl old vf kv = Some u"
    by (auto simp add: valid_updates_def List.map_filter_def)
  obtain k v where kv: "kv = (k, v)" by (cases kv) auto
  from s have "parse_attr P logger dl k v (captured lv v vf) = Apply u"
    by (simp add: kv split: if_splits attr_result.splits)
  then show ?thesis by (rule parse_attr_Apply)
qed

lemma valid_updates_local:
  "local (ic (foldl run_update w (valid_updates lv P logger dl old vf attrs))) = local (ic w)"
  by (rule foldl_run_update_local) (use valid_updates_shape in blast)

lemma reverts_local:
  "local (ic (foldl run_update w (reverts lv kf attrs old))) = local (ic w)"
  by (rule foldl_run_update_local) (auto simp add: reverts_def)

lemma apply_updates_local:
  "local (ic (apply_updates rem
      (valid_updates lv P logger dl old vf attrs @ reverts lv kf attrs' old) w)) = local (ic w)"
  by (simp add: apply_updates_def valid_updates_local reverts_local)

lemma updateRemoteConfig_local:
  "local (ic (fst (updateRemoteConfig lv P logger dl w old attrs))) = local (ic w)"
  by (simp add: updateRemoteConfig_eq apply_updates_local)

lemma run_batches_local:
  "local (ic (run_batches lv P dl w batches)) = local (ic w)"
proof (induction batches arbitrary: w)
  case Nil
  show ?case by simp
next
  case (Cons b batches)
  obtain logger old attrs where b: "b = (logger, old, attrs)" by (cases b) auto
  show ?case
    by (simp add: b Cons.IH updateRemoteConfig_local)
qed

subsection \<open>Reverting to the local configuration\<close>

text \<open>
  \<^verbatim>\<open>setLocalInstrumentationConfig\<close> keeps the function under its key; when no remote value
  is in force for the key it also runs the function, so that the values are the ones the
  function writes.
\<close>

lemma setLocalInstrumentationConfig_local:
  "local (ic (setLocalInstrumentationConfig envKey f w)) envKey = Some f \<and>
   (envKey \<notin> remote (ic w) \<longrightarrow>
      cfg_values (ic (setLocalInstrumentationConfig envKey f w)) = f (cfg_values (ic w)))"
  by (simp add: setLocalInstrumentationConfig_def updateInstrumentationConfig_def Let_def)

lemma revert_step:
  assumes "local (ic w) (envName k) = Some f" and "\<And>v. get (f v) = c"
    and "\<And>K g v. K \<noteq> envName k \<Longrightarrow> local (ic w) K = Some g \<Longrightarrow> get (g v) = get v"
  shows "get (cfg_values (ic (run_update w (revert_update k')))) =
           (if envName k' = envName k then c else get (cfg_values (ic w)))"
  using assms by (auto simp add: revert_update_def split: option.splits)

lemma revert_fold:
  assumes "local (ic w) (envName k) = Some f" and "\<And>v. get (f v) = c"
    and "\<And>K g v. K \<noteq> envName k \<Longrightarrow> local (ic w) K = Some g \<Longrightarrow> get (g v) = get v"
    and "k \<in> set ks \<or> get (cfg_values (ic w)) = c"
  shows "get (cfg_values (ic (foldl run_update w (map revert_update ks)))) = c"
  using assms
proof (induction ks arbitrary: w)
  case Nil
  then show ?case by simp
next
  case (Cons k' ks)
  let ?w = "run_update w (revert_update k')"
  have l: "local (ic ?w) = local (ic w)"
    by (rule run_update_local) blast
  have s: "get (cfg_values (ic ?w)) = (if envName k' = envName k then c else get (cfg_values (ic w)))"
    using Cons.prems(1,2,3) by (rule revert_step)
  have d: "k \<in> set ks \<or> get (cfg_values (ic ?w)) = c"
    using Cons.prems(4) s by auto
  have "get (cfg_values (ic (foldl run_update ?w (map revert_update ks)))) = c"
  proof (rule Cons.IH [of ?w])
    show "local (ic ?w) (envName k) = Some f" by (simp add: l Cons.prems(1))
    show "\<And>v. get (f v) = c" by (rule Cons.prems(2))
    show "\<And>K g v. K \<noteq> envName k \<Longrightarrow> local (ic ?w) K = Some g \<Longrightarrow> get (g v) = get v"
      using Cons.prems(3) by (simp add: l)
    show "k \<in> set ks \<or> get (cfg_values (ic ?w)) = c" by (rule d)
  qed
  then show ?case by simp
qed

lemma reverts_PerIteration:
  "reverts PerIteration kf attrs old =
     map revert_update (filter (\<lambda>k. k \<notin> fst ` set attrs) (map fst old))"
  by (simp add: reverts_def captured_PerIteration)

lemma reverts_PerLoop:
  "reverts PerLoop kf attrs old =
     replicate (length (filter (\<lambda>k. k \<notin> fst ` set attrs) (map fst old))) (revert_update kf)"
  by (simp add: reverts_def captured_PerLoop map_replicate_const)

text \<open>
  With a variable for every pass of a loop, reverting gives back the local values. Let
  \<open>w0\<close> be a state in which the map \<^verbatim>\<open>local\<close> holds, under the name of the key \<open>k\<close>, a
  function \<open>f\<close> that writes the local value of a field (the field that \<open>get\<close> reads):
  whatever values \<open>f\<close> is run on, the field then holds what it holds in \<open>w0\<close>. Let no other
  function of \<^verbatim>\<open>local\<close> change that field. Then, after any sequence of calls of
  \<^verbatim>\<open>updateRemoteConfig\<close>, a call in which \<open>k\<close> is a key of \<^verbatim>\<open>old\<close> and not a key of \<^verbatim>\<open>attrs\<close>
  (as the call leaves it) gives a configuration in which the field holds again what it
  held in \<open>w0\<close>, whatever other keys that call reverts.
\<close>

lemma PerIteration_revert_restores_local:
  assumes "local (ic w0) (envName k) = Some f"
    and "\<And>v. get (f v) = get (cfg_values (ic w0))"
    and "\<And>K g v. K \<noteq> envName k \<Longrightarrow> local (ic w0) K = Some g \<Longrightarrow> get (g v) = get v"
    and "updateRemoteConfig PerIteration P logger dl (run_batches lv P dl w0 batches) old attrs =
           (w', attrs', lg)"
    and "k \<in> fst ` set old" and "k \<notin> fst ` set attrs'"
  shows "get (cfg_values (ic w')) = get (cfg_values (ic w0))"
proof -
  let ?w = "run_batches lv P dl w0 batches"
  let ?vu = "valid_updates PerIteration P logger dl old (last_val attrs) attrs"
  let ?rv = "reverts PerIteration (last_key old) attrs' old"
  have L: "local (ic ?w) = local (ic w0)" by (rule run_batches_local)
  from assms(4) have k': "attrs' = kept_attrs PerIteration P logger dl old (last_val attrs) attrs"
    by (simp add: updateRemoteConfig_eq)
  have mem: "k \<in> set (filter (\<lambda>k. k \<notin> fst ` set attrs') (map fst old))"
    using assms(5,6) by auto
  then have "filter (\<lambda>k. k \<notin> fst ` set attrs') (map fst old) \<noteq> []"
    by (metis empty_iff empty_set)
  then have ne: "?vu @ ?rv \<noteq> []"
    by (simp add: reverts_PerIteration)
  from assms(4) ne have w': "w' = apply_updates (envName ` fst ` set attrs') (?vu @ ?rv) ?w"
    by (simp add: updateRemoteConfig_eq k' [symmetric])
  let ?w1 = "foldl run_update (?w\<lparr>ic := (ic ?w)\<lparr>remote := envName ` fst ` set attrs'\<rparr>\<rparr>) ?vu"
  have L1: "local (ic ?w1) = local (ic w0)"
    by (simp add: valid_updates_local L)
  have "get (cfg_values (ic (foldl run_update ?w1
          (map revert_update (filter (\<lambda>k. k \<notin> fst ` set attrs') (map fst old)))))) =
        get (cfg_values (ic w0))"
  proof (rule revert_fold [of ?w1 k f get])
    show "local (ic ?w1) (envName k) = Some f" by (simp add: L1 assms(1))
    show "\<And>v. get (f v) = get (cfg_values (ic w0))" by (rule assms(2))
    show "\<And>K g v. K \<noteq> envName k \<Longrightarrow> local (ic ?w1) K = Some g \<Longrightarrow> get (g v) = get v"
      using assms(3) by (simp add: L1)
    show "k \<in> set (filter (\<lambda>k. k \<notin> fst ` set attrs') (map fst old)) \<or>
        get (cfg_values (ic ?w1)) = get (cfg_values (ic w0))"
      using mem by blast
  qed
  then show ?thesis
    by (simp add: w' apply_updates_def reverts_PerIteration)
qed

subsection \<open>The example settings\<close>

lemma envName_max_spans: "envName ''transaction_max_spans'' = envMaxSpans"
  by (simp add: envName_def envMaxSpans_def ToUpper_def ToUpper_char_def)

lemma envName_capture_body: "envName ''capture_body'' = envCaptureBody"
  by (simp add: envName_def envCaptureBody_def ToUpper_def ToUpper_char_def)

lemma envName_strategy: "envName ''trace_continuation_strategy'' = envContinuationStrategy"
  by (simp add: envName_def envContinuationStrategy_def ToUpper_def ToUpper_char_def)

lemma env_distinct: "envMaxSpans \<noteq> envCaptureBody"
  by (simp add: envMaxSpans_def envCaptureBody_def)

lemma parse_max_spans_10:
  "parse_attr example_parsers logger dl ''transaction_max_spans'' ''10'' vc =
     Apply (set_values (\<lambda>c. c\<lparr>maxSpans := 10\<rparr>))"
  by (simp add: parse_attr_def envName_max_spans env_distinct example_parsers_def)

lemma parse_max_spans_abc:
  "parse_attr example_parsers logger dl ''transaction_max_spans'' ''abc'' vc =
     Reject (Errorf ''transaction_max_spans'')"
  by (simp add: parse_attr_def envName_max_spans env_distinct example_parsers_def)

lemma parse_capture_body_all:
  "parse_attr example_parsers logger dl ''capture_body'' ''all'' vc =
     Apply (set_values (\<lambda>c. c\<lparr>captureBody := CaptureBodyAll\<rparr>))"
  by (simp add: parse_attr_def envName_capture_body parseCaptureBody_def ToLower_def
      ToLower_char_def TrimSpace_def is_space_def)

lemma parse_strategy_restart:
  "parse_attr example_parsers logger dl ''trace_continuation_strategy'' ''restart'' vc =
     Apply (set_values (\<lambda>c. c\<lparr>continuationStrategy := vc\<rparr>))"
  by (simp add: parse_attr_def envName_strategy validateContinuationStrategy_def
      envContinuationStrategy_def envCaptureBody_def envMaxSpans_def envExitSpanMinDuration_def
      envIgnoreURLs_def envRecording_def envSanitizeFieldNames_def)

lemma example_remote:
  "run_batches lv example_parsers False example_world [(None, [], example_batch)] =
     \<lparr>ic = \<lparr>cfg_values = example_values\<lparr>maxSpans := 10, captureBody := CaptureBodyAll\<rparr>,
             local = example_local, remote = {envMaxSpans, envCaptureBody}\<rparr>,
      dl_level = 0\<rparr>"
  by (simp add: updateRemoteConfig_def example_batch_def parse_max_spans_10
      parse_capture_body_all emit_def updateInstrumentationConfig_def apply_updates_def
      set_values_def example_world_def example_config_def envName_max_spans envName_capture_body)

lemma example_local_max_spans:
  "example_local (envName ''transaction_max_spans'') = Some (\<lambda>c. c\<lparr>maxSpans := 500\<rparr>)"
  by (simp add: example_local_def envName_max_spans env_distinct)

lemma example_local_capture_body:
  "example_local (envName ''capture_body'') = Some (\<lambda>c. c\<lparr>captureBody := CaptureBodyOff\<rparr>)"
  by (simp add: example_local_def envName_capture_body)

text \<open>
  The two keys of the example, reverted in the same call, with a variable for every pass
  of the loop: both fields hold their local values again.
\<close>

lemma PerIteration_revert_example:
  "maxSpans (cfg_values (ic (remote_world PerIteration))) = 10 \<and>
   captureBody (cfg_values (ic (remote_world PerIteration))) = CaptureBodyAll \<and>
   maxSpans (cfg_values (ic (fst (updateRemoteConfig PerIteration example_parsers None False
       (remote_world PerIteration) example_batch [])))) = 500 \<and>
   captureBody (cfg_values (ic (fst (updateRemoteConfig PerIteration example_parsers None False
       (remote_world PerIteration) example_batch [])))) = CaptureBodyOff"
proof -
  let ?w1 = "run_batches PerIteration example_parsers False example_world [(None, [], example_batch)]"
  let ?r = "updateRemoteConfig PerIteration example_parsers None False ?w1 example_batch []"
  have r: "?r = (fst ?r, fst (snd ?r), snd (snd ?r))" by simp
  have a: "fst (snd ?r) = []"
    by (simp add: updateRemoteConfig_eq kept_attrs_def)
  have mem: "''transaction_max_spans'' \<in> fst ` set example_batch"
      "''capture_body'' \<in> fst ` set example_batch"
    by (simp_all add: example_batch_def)
  have nm: "''transaction_max_spans'' \<notin> fst ` set (fst (snd ?r))"
      "''capture_body'' \<notin> fst ` set (fst (snd ?r))"
    by (simp_all only: a) simp_all
  have l1: "local (ic example_world) (envName ''transaction_max_spans'') =
      Some (\<lambda>c. c\<lparr>maxSpans := 500\<rparr>)"
    by (simp add: example_world_def example_config_def example_local_max_spans)
  have l2: "local (ic example_world) (envName ''capture_body'') =
      Some (\<lambda>c. c\<lparr>captureBody := CaptureBodyOff\<rparr>)"
    by (simp add: example_world_def example_config_def example_local_capture_body)
  have o1: "\<And>K g v. K \<noteq> envName ''transaction_max_spans'' \<Longrightarrow>
      local (ic example_world) K = Some g \<Longrightarrow> maxSpans (g v) = maxSpans v"
    by (auto simp add: example_world_def example_config_def example_local_def envName_max_spans
        split: if_splits)
  have o2: "\<And>K g v. K \<noteq> envName ''capture_body'' \<Longrightarrow>
      local (ic example_world) K = Some g \<Longrightarrow> captureBody (g v) = captureBody v"
    by (auto simp add: example_world_def example_config_def example_local_def envName_capture_body
        split: if_splits)
  have v1: "\<And>v. maxSpans (v\<lparr>maxSpans := 500\<rparr>) = maxSpans (cfg_values (ic example_world))"
    by (simp add: example_world_def example_config_def example_values_def)
  have v2: "\<And>v. captureBody (v\<lparr>captureBody := CaptureBodyOff\<rparr>) =
      captureBody (cfg_values (ic example_world))"
    by (simp add: example_world_def example_config_def example_values_def)
  have m: "maxSpans (cfg_values (ic (fst ?r))) = maxSpans (cfg_values (ic example_world))"
    using l1 v1 o1 r mem(1) nm(1) by (rule PerIteration_revert_restores_local)
  have c: "captureBody (cfg_values (ic (fst ?r))) = captureBody (cfg_values (ic example_world))"
    using l2 v2 o2 r mem(2) nm(2) by (rule PerIteration_revert_restores_local)
  from m c show ?thesis
    unfolding remote_world_def example_remote
    by (simp add: example_world_def example_config_def example_values_def)
qed

text \<open>
  Claim C2 says that removing remote overrides gives every affected field the value of the
  local configuration again, also when several keys are reverted in the same call. With
  one variable for all the passes of a loop (\<open>PerLoop\<close>) \<^verbatim>\<open>updateRemoteConfig\<close> does not
  do that. The example configuration has the local values 500 for \<^verbatim>\<open>maxSpans\<close> and \<^verbatim>\<open>off\<close>
  for \<^verbatim>\<open>captureBody\<close>, each with its function in \<^verbatim>\<open>local\<close>. A first call sets both
  remotely, to 10 and \<^verbatim>\<open>all\<close>. A second call has both keys in \<^verbatim>\<open>old\<close> and an empty \<^verbatim>\<open>attrs\<close>:
  it appends one reverting closure for each key, and both closures read the key that
  \<^verbatim>\<open>range old\<close> visited last. When that is \<^verbatim>\<open>capture_body\<close>, \<^verbatim>\<open>captureBody\<close> is \<^verbatim>\<open>off\<close> again
  and \<^verbatim>\<open>maxSpans\<close> stays 10; when it is \<^verbatim>\<open>transaction_max_spans\<close>, \<^verbatim>\<open>maxSpans\<close> is 500 again
  and \<^verbatim>\<open>captureBody\<close> stays \<^verbatim>\<open>all\<close>. In both orders one field keeps its remote value,
  while \<^verbatim>\<open>attrs\<close> and \<^verbatim>\<open>remote\<close> hold no key any more.
\<close>

theorem PerLoop_revert_keeps_remote_value:
  "maxSpans (cfg_values (ic example_world)) = 500 \<and>
   captureBody (cfg_values (ic example_world)) = CaptureBodyOff \<and>
   maxSpans (cfg_values (ic (remote_world PerLoop))) = 10 \<and>
   captureBody (cfg_values (ic (remote_world PerLoop))) = CaptureBodyAll \<and>
   fst (snd (updateRemoteConfig PerLoop example_parsers None False
       (remote_world PerLoop) example_batch [])) = [] \<and>
   maxSpans (cfg_values (ic (fst (updateRemoteConfig PerLoop example_parsers None False
       (remote_world PerLoop) example_batch [])))) = 10 \<and>
   captureBody (cfg_values (ic (fst (updateRemoteConfig PerLoop example_parsers None False
       (remote_world PerLoop) example_batch [])))) = CaptureBodyOff \<and>
   maxSpans (cfg_values (ic (fst (updateRemoteConfig PerLoop example_parsers None False
       (remote_world PerLoop) (rev example_batch) [])))) = 500 \<and>
   captureBody (cfg_values (ic (fst (updateRemoteConfig PerLoop example_parsers None False
       (remote_world PerLoop) (rev example_batch) [])))) = CaptureBodyAll"
  unfolding remote_world_def example_remote
  by (simp add: updateRemoteConfig_def example_batch_def emit_def captured_PerLoop last_key_def
      last_val_def updateInstrumentationConfig_def apply_updates_def revert_update_def
      example_local_max_spans [unfolded envName_max_spans]
      example_local_capture_body [unfolded envName_capture_body]
      envName_max_spans envName_capture_body
      example_world_def example_config_def example_values_def)

theorem PerLoop_revert_keeps_remote_value_witness:
  "maxSpans (cfg_values (ic (fst (updateRemoteConfig PerLoop example_parsers None False
       (remote_world PerLoop) example_batch [])))) \<noteq> maxSpans (cfg_values (ic example_world)) \<and>
   captureBody (cfg_values (ic (fst (updateRemoteConfig PerLoop example_parsers None False
       (remote_world PerLoop) (rev example_batch) [])))) \<noteq>
     captureBody (cfg_values (ic example_world))"
  using PerLoop_revert_keeps_remote_value by simp


subsection \<open>A value that does not parse\<close>

lemma kept_attrs_key:
  assumes "distinct (map fst attrs)" and "(kb, vb) \<in> set attrs"
    and "\<not> attr_kept lv P logger dl old vf (kb, vb)"
  shows "kb \<notin> fst ` set (kept_attrs lv P logger dl old vf attrs)"
proof
  assume "kb \<in> fst ` set (kept_attrs lv P logger dl old vf attrs)"
  then obtain v where v: "(kb, v) \<in> set attrs" and k: "attr_kept lv P logger dl old vf (kb, v)"
    by (auto simp add: kept_attrs_def)
  from assms(1,2) v have "v = vb" by (meson eq_key_imp_eq_value)
  with k assms(3) show False by simp
qed

lemma valid_updates_mem:
  assumes "(k, v) \<in> set attrs" and "map_of old k \<noteq> Some v"
    and "parse_attr P logger dl k v (captured lv v vf) = Apply u"
  shows "u \<in> set (valid_updates lv P logger dl old vf attrs)"
proof -
  from assms(2,3) have "attr_update lv P logger dl old vf (k, v) = Some u" by simp
  with assms(1) show ?thesis
    by (force simp add: valid_updates_def List.map_filter_def)
qed

lemma kept_attrs_mem:
  assumes "(k, v) \<in> set attrs" and "parse_attr P logger dl k v (captured lv v vf) = Apply u"
  shows "(k, v) \<in> set (kept_attrs lv P logger dl old vf attrs)"
  using assms by (simp add: kept_attrs_def)

lemma valid_updates_removeAll:
  assumes "attr_update lv P logger dl old vf kv = None"
  shows "valid_updates lv P logger dl old vf (removeAll kv attrs) =
     valid_updates lv P logger dl old vf attrs"
  using assms
  by (induction attrs) (auto simp add: valid_updates_def List.map_filter_simps split: option.splits)

lemma kept_attrs_removeAll:
  assumes "\<not> attr_kept lv P logger dl old vf kv"
  shows "kept_attrs lv P logger dl old vf (removeAll kv attrs) =
     kept_attrs lv P logger dl old vf attrs"
  using assms by (induction attrs) (auto simp add: kept_attrs_def)

lemma valid_updates_PerIteration:
  "valid_updates PerIteration P logger dl old vf attrs =
     valid_updates PerIteration P logger dl old vf' attrs"
proof (induction attrs)
  case Nil
  show ?case by (simp add: valid_updates_def List.map_filter_simps)
next
  case (Cons kv attrs)
  obtain k v where kv: "kv = (k, v)" by (cases kv) auto
  from Cons.IH show ?case
    by (simp add: kv valid_updates_def List.map_filter_simps captured_PerIteration
        split: option.splits)
qed

lemma kept_attrs_PerIteration:
  "kept_attrs PerIteration P logger dl old vf attrs =
     kept_attrs PerIteration P logger dl old vf' attrs"
proof (induction attrs)
  case Nil
  show ?case by (simp add: kept_attrs_def)
next
  case (Cons kv attrs)
  obtain k v where kv: "kv = (k, v)" by (cases kv) auto
  from Cons.IH show ?case
    by (simp add: kv kept_attrs_def captured_PerIteration)
qed

text \<open>
  With a variable for every pass of a loop, a value that does not parse leaves the rest of
  the call as it is without it. In one call of \<^verbatim>\<open>updateRemoteConfig\<close> on a map \<^verbatim>\<open>attrs\<close>,
  let the key \<open>kb\<close> have a value \<open>vb\<close> that differs from the old one and that the \<^verbatim>\<open>switch\<close>
  rejects with the message \<open>e\<close>. Then \<open>kb\<close> is not a key of \<^verbatim>\<open>attrs\<close> when the call returns;
  with a logger, \<open>e\<close> is in the log; and the new configuration and the map \<^verbatim>\<open>attrs\<close> are the
  ones that the same call gives on the map without the entry of \<open>kb\<close>.
\<close>

lemma PerIteration_invalid_key_isolated:
  assumes "distinct (map fst attrs)" and "(kb, vb) \<in> set attrs"
    and "map_of old kb \<noteq> Some vb" and "parse_attr P logger dl kb vb vb = Reject e"
    and "updateRemoteConfig PerIteration P logger dl w old attrs = (w', attrs', lg)"
  shows "kb \<notin> fst ` set attrs' \<and>
     set (emit logger e) \<subseteq> set lg \<and>
     w' = fst (updateRemoteConfig PerIteration P logger dl w old (removeAll (kb, vb) attrs)) \<and>
     attrs' = fst (snd (updateRemoteConfig PerIteration P logger dl w old (removeAll (kb, vb) attrs)))"
proof -
  have nk: "\<not> attr_kept PerIteration P logger dl old vf (kb, vb)" for vf
    using assms(3,4) by (simp add: captured_PerIteration)
  have nu: "attr_update PerIteration P logger dl old vf (kb, vb) = None" for vf
    using assms(3,4) by (simp add: captured_PerIteration)
  from assms(5) have a': "attrs' = kept_attrs PerIteration P logger dl old (last_val attrs) attrs"
    by (auto simp add: updateRemoteConfig_eq)
  from assms(5) have lg: "lg = snd (snd (attrs_loop PerIteration P logger dl old (last_val attrs) attrs)) @
        snd (old_loop PerIteration logger
          (kept_attrs PerIteration P logger dl old (last_val attrs) attrs) (last_key old) old)"
    by (auto simp add: updateRemoteConfig_eq)
  from assms(5) have w': "w' = fst (updateRemoteConfig PerIteration P logger dl w old attrs)"
    by simp
  have 1: "kb \<notin> fst ` set attrs'"
    unfolding a' by (rule kept_attrs_key [OF assms(1,2) nk])
  have r: "parse_attr P logger dl kb vb (captured PerIteration vb (last_val attrs)) = Reject e"
    using assms(4) by (simp add: captured_PerIteration)
  have 2: "set (emit logger e) \<subseteq> set lg"
    using attrs_loop_log [OF assms(2,3) r] by (auto simp add: lg)
  let ?ra = "removeAll (kb, vb) attrs"
  have vu: "valid_updates PerIteration P logger dl old (last_val ?ra) ?ra =
      valid_updates PerIteration P logger dl old (last_val attrs) attrs"
    using valid_updates_PerIteration [of P logger dl old "last_val ?ra" ?ra "last_val attrs"]
      valid_updates_removeAll [OF nu, of "last_val attrs" attrs]
    by simp
  have ku: "kept_attrs PerIteration P logger dl old (last_val ?ra) ?ra =
      kept_attrs PerIteration P logger dl old (last_val attrs) attrs"
    using kept_attrs_PerIteration [of P logger dl old "last_val ?ra" ?ra "last_val attrs"]
      kept_attrs_removeAll [OF nk, of "last_val attrs" attrs]
    by simp
  have 3: "w' = fst (updateRemoteConfig PerIteration P logger dl w old ?ra)"
    unfolding w' updateRemoteConfig_eq vu ku by simp
  have 4: "attrs' = fst (snd (updateRemoteConfig PerIteration P logger dl w old ?ra))"
    unfolding a' updateRemoteConfig_eq vu ku by simp
  from 1 2 3 4 show ?thesis by blast
qed

text \<open>
  Whatever the variables of the loops are, a value that the \<^verbatim>\<open>switch\<close> rejects is taken
  out of \<^verbatim>\<open>attrs\<close> and, with a logger, logged, and the entries that the \<^verbatim>\<open>switch\<close> accepts
  stay in \<^verbatim>\<open>attrs\<close>.
\<close>

lemma rejected_key_discarded:
  assumes "distinct (map fst attrs)" and "(kb, vb) \<in> set attrs"
    and "map_of old kb \<noteq> Some vb"
    and "parse_attr P logger dl kb vb (captured lv vb (last_val attrs)) = Reject e"
    and "updateRemoteConfig lv P logger dl w old attrs = (w', attrs', lg)"
  shows "kb \<notin> fst ` set attrs' \<and> set (emit logger e) \<subseteq> set lg"
proof -
  have nk: "\<not> attr_kept lv P logger dl old (last_val attrs) (kb, vb)"
    using assms(3,4) by simp
  from assms(5) have a': "attrs' = kept_attrs lv P logger dl old (last_val attrs) attrs"
    by (auto simp add: updateRemoteConfig_eq)
  from assms(5) have lg: "lg = snd (snd (attrs_loop lv P logger dl old (last_val attrs) attrs)) @
        snd (old_loop lv logger
          (kept_attrs lv P logger dl old (last_val attrs) attrs) (last_key old) old)"
    by (auto simp add: updateRemoteConfig_eq)
  have 1: "kb \<notin> fst ` set attrs'"
    unfolding a' by (rule kept_attrs_key [OF assms(1,2) nk])
  have 2: "set (emit logger e) \<subseteq> set lg"
    using attrs_loop_log [OF assms(2,3,4)] by (auto simp add: lg)
  from 1 2 show ?thesis by blast
qed

lemma example_strategy:
  "updateRemoteConfig lv example_parsers (Some CustomLogger) False example_world [] strategy_batch =
     (\<lparr>ic = \<lparr>cfg_values = example_values\<lparr>continuationStrategy := captured lv ''restart'' ''abc''\<rparr>,
             local = example_local, remote = {envContinuationStrategy}\<rparr>,
       dl_level = 0\<rparr>,
      [(''trace_continuation_strategy'', ''restart'')],
      [Debugf_updated ''trace_continuation_strategy'' ''restart'',
       Errorf ''transaction_max_spans''])"
  by (simp add: updateRemoteConfig_def strategy_batch_def parse_max_spans_abc
      parse_strategy_restart emit_def updateInstrumentationConfig_def apply_updates_def
      set_values_def example_world_def example_config_def envName_strategy last_val_def
      last_key_def)

text \<open>
  Claim C9 says that a value that does not parse is discarded and logged and that every
  other key with a valid value is still applied. With one variable for all the passes of
  a loop (\<open>PerLoop\<close>) \<^verbatim>\<open>updateRemoteConfig\<close> does not apply the valid value of
  \<^verbatim>\<open>trace_continuation_strategy\<close>: its closure writes what \<^verbatim>\<open>v\<close> holds after the loop. In
  the call on \<^verbatim>\<open>trace_continuation_strategy = restart\<close> and \<^verbatim>\<open>transaction_max_spans = abc\<close>,
  visited in this order, the second value is rejected, logged and taken out of \<^verbatim>\<open>attrs\<close>,
  and the first key stays in \<^verbatim>\<open>attrs\<close>; but the strategy of the new configuration is
  \<^verbatim>\<open>abc\<close>, the rejected value of the other key, which is no strategy at all. Visited in
  the other order, or without the second entry, the same call gives \<^verbatim>\<open>restart\<close>.
\<close>

theorem PerLoop_strategy_takes_last_value:
  "validateContinuationStrategy ''restart'' \<and>
   fst (snd (updateRemoteConfig PerLoop example_parsers (Some CustomLogger) False example_world []
       strategy_batch)) = [(''trace_continuation_strategy'', ''restart'')] \<and>
   snd (snd (updateRemoteConfig PerLoop example_parsers (Some CustomLogger) False example_world []
       strategy_batch)) =
     [Debugf_updated ''trace_continuation_strategy'' ''restart'', Errorf ''transaction_max_spans''] \<and>
   continuationStrategy (cfg_values (ic (fst (updateRemoteConfig PerLoop example_parsers
       (Some CustomLogger) False example_world [] strategy_batch)))) = ''abc'' \<and>
   continuationStrategy (cfg_values (ic (fst (updateRemoteConfig PerLoop example_parsers
       (Some CustomLogger) False example_world [] (rev strategy_batch))))) = ''restart'' \<and>
   continuationStrategy (cfg_values (ic (fst (updateRemoteConfig PerLoop example_parsers
       (Some CustomLogger) False example_world []
       [(''trace_continuation_strategy'', ''restart'')])))) = ''restart''"
  by (simp add: example_strategy captured_PerLoop validateContinuationStrategy_def)
    (simp add: updateRemoteConfig_def strategy_batch_def parse_max_spans_abc
      parse_strategy_restart emit_def updateInstrumentationConfig_def apply_updates_def
      set_values_def example_world_def example_config_def envName_strategy last_val_def
      last_key_def captured_PerLoop)

theorem PerLoop_strategy_takes_last_value_witness:
  "continuationStrategy (cfg_values (ic (fst (updateRemoteConfig PerLoop example_parsers
       (Some CustomLogger) False example_world [] strategy_batch)))) \<noteq> ''restart'' \<and>
   \<not> validateContinuationStrategy (continuationStrategy (cfg_values (ic (fst (updateRemoteConfig
       PerLoop example_parsers (Some CustomLogger) False example_world [] strategy_batch)))))"
  using PerLoop_strategy_takes_last_value by (simp add: validateContinuationStrategy_def)

section \<open>Properties of transactions\<close>

subsection \<open>\<^verbatim>\<open>End\<close> and \<^verbatim>\<open>Discard\<close>\<close>

lemma End_ended: "ended tx \<Longrightarrow> End S now t tx = (t, tx)"
  by (simp add: End_def ended_def)

lemma Discard_ended: "ended tx \<Longrightarrow> Discard t tx = (t, tx)"
  by (simp add: Discard_def ended_def)

lemma ended_End: "ended (snd (End S now t tx))"
  by (simp add: End_def ended_def Let_def split: option.splits prod.splits)

lemma ended_Discard: "ended (snd (Discard t tx))"
  by (simp add: Discard_def ended_def split: option.splits)

text \<open>
  Claim C6. After \<^verbatim>\<open>End\<close> or \<^verbatim>\<open>Discard\<close> has run once on a transaction, the transaction is
  ended, and a later \<^verbatim>\<open>End\<close> (with any clock and any \<^verbatim>\<open>end\<close> of spans) or \<^verbatim>\<open>Discard\<close>
  returns the tracer and the transaction as they were: no event is added to the channel,
  nothing is put into the pool, no counter changes.
\<close>

theorem End_Discard_idempotent:
  "ended (snd (End S now t tx)) \<and>
   End S' now' (fst (End S now t tx)) (snd (End S now t tx)) = End S now t tx \<and>
   Discard (fst (End S now t tx)) (snd (End S now t tx)) = End S now t tx \<and>
   ended (snd (Discard t tx)) \<and>
   End S' now' (fst (Discard t tx)) (snd (Discard t tx)) = Discard t tx \<and>
   Discard (fst (Discard t tx)) (snd (Discard t tx)) = Discard t tx"
  using End_ended [OF ended_End, of S' now' "fst (End S now t tx)" S now t tx]
    Discard_ended [OF ended_End, of "fst (End S now t tx)" S now t tx]
    End_ended [OF ended_Discard, of S' now' "fst (Discard t tx)" t tx]
    Discard_ended [OF ended_Discard, of "fst (Discard t tx)" t tx]
  by (simp add: ended_End ended_Discard)

theorem End_Discard_idempotent_witness:
  "ended (snd (End no_span_end 200 example_tracer example_tx)) \<and>
   length (events (fst (End no_span_end 200 example_tracer example_tx))) = 1 \<and>
   End no_span_end 300 (fst (End no_span_end 200 example_tracer example_tx))
       (snd (End no_span_end 200 example_tracer example_tx)) =
     End no_span_end 200 example_tracer example_tx \<and>
   Discard (fst (End no_span_end 200 example_tracer example_tx))
       (snd (End no_span_end 200 example_tracer example_tx)) =
     End no_span_end 200 example_tracer example_tx \<and>
   transactionDataPool (fst (Discard example_tracer example_tx)) = [reset_data example_data] \<and>
   Discard (fst (Discard example_tracer example_tx)) (snd (Discard example_tracer example_tx)) =
     Discard example_tracer example_tx"
  using End_Discard_idempotent [of no_span_end 200 example_tracer example_tx no_span_end 300]
  by (simp add: End_def Discard_def example_tx_def example_data_def example_tracer_def
      new_TransactionData_def Let_def evict_def enqueue_def resolve_Outcome_def reset_def)

lemma resolve_Outcome_eq:
  "Outcome (resolve_Outcome td) =
     (if Outcome td \<noteq> [] then Outcome td
      else if response_StatusCode (Context td) \<noteq> 0
           then (if response_StatusCode (Context td) < 400 then ''success'' else ''failure'')
      else if errorCaptured td then ''failure'' else ''success'')"
  by (simp add: resolve_Outcome_def Context_outcome_def Let_def)

lemma resolve_Outcome_frame:
  "Context (resolve_Outcome td) = Context td \<and> errorCaptured (resolve_Outcome td) = errorCaptured td \<and>
   compressedSpan (resolve_Outcome td) = compressedSpan td"
  by (simp add: resolve_Outcome_def Let_def)

text \<open>
  Claim C8. When a recording transaction ends, \<^verbatim>\<open>End\<close> gives its data this outcome: the
  outcome that the caller set, if it is not empty; otherwise \<^verbatim>\<open>success\<close> for a captured
  HTTP status code below 400 and \<^verbatim>\<open>failure\<close> for one from 400 on; otherwise, with no status
  captured, \<^verbatim>\<open>failure\<close> if an error was captured during the transaction and \<^verbatim>\<open>success\<close> if
  none was. The data with this outcome is what \<^verbatim>\<open>End\<close> goes on with: without a pending
  compressed span it is enqueued; with one, the \<^verbatim>\<open>end\<close> of that span runs on it first, and
  what that leaves is enqueued.
\<close>

theorem End_Outcome:
  assumes "txData tx = Some td" and "tx_recording td"
  shows "\<exists>td'.
     Outcome td' =
       (if Outcome td \<noteq> [] then Outcome td
        else if response_StatusCode (Context td) \<noteq> 0
             then (if response_StatusCode (Context td) < 400 then ''success'' else ''failure'')
        else if errorCaptured td then ''failure'' else ''success'') \<and>
     End S now t tx =
       (case cache (compressedSpan td) of
          None \<Rightarrow> (enqueue tx td' t, tx\<lparr>txData := None\<rparr>)
        | Some s \<Rightarrow> (enqueue tx (fst (S s (td', t))) (snd (S s (td', t))), tx\<lparr>txData := None\<rparr>))"
proof -
  define td1 where "td1 = (if Type td = [] then td\<lparr>Type := ''custom''\<rparr> else td)"
  define td2 where "td2 = (if Duration td1 < 0 then td1\<lparr>Duration := now - timestamp td1\<rparr> else td1)"
  define td3 where "td3 = resolve_Outcome td2"
  define td4 where "td4 = td3\<lparr>compressedSpan := (compressedSpan td3)\<lparr>cache := None\<rparr>\<rparr>"
  have rec: "tx_recording td1" using assms(2) by (simp add: td1_def)
  have c: "cache (compressedSpan td3) = cache (compressedSpan td)"
    by (simp add: td3_def td2_def td1_def resolve_Outcome_frame)
  have E: "End S now t tx =
       (case cache (compressedSpan td) of
          None \<Rightarrow> (enqueue tx td4 t, tx\<lparr>txData := None\<rparr>)
        | Some s \<Rightarrow> (enqueue tx (fst (S s (td4, t))) (snd (S s (td4, t))), tx\<lparr>txData := None\<rparr>))"
    using assms(1) rec
    by (simp add: End_def Let_def evict_def td1_def [symmetric] td2_def [symmetric]
        td3_def [symmetric] td4_def [symmetric] c split: option.splits prod.splits)
  have o: "Outcome td4 =
       (if Outcome td \<noteq> [] then Outcome td
        else if response_StatusCode (Context td) \<noteq> 0
             then (if response_StatusCode (Context td) < 400 then ''success'' else ''failure'')
        else if errorCaptured td then ''failure'' else ''success'')"
    by (simp add: td4_def td3_def resolve_Outcome_eq td2_def td1_def)
  from o E show ?thesis by blast
qed

theorem End_Outcome_witness:
  "(\<exists>td'. Outcome td' = ''failure'' \<and>
      events (fst (End no_span_end 200 example_tracer example_tx)) =
        [transactionEvent inbound_valid zero_SpanID td']) \<and>
   (\<exists>td'. Outcome td' = ''failure'' \<and>
      events (fst (End no_span_end 200 example_tracer pending_tx)) =
        [transactionEvent inbound_valid zero_SpanID td'])"
proof -
  have a: "txData example_tx = Some example_data" "tx_recording example_data"
    by (simp_all add: example_tx_def example_data_def)
  have b: "txData pending_tx = Some pending_data" "tx_recording pending_data"
    by (simp_all add: pending_tx_def pending_data_def example_data_def)
  from End_Outcome [OF a, of no_span_end 200 example_tracer]
  obtain td1 where o1: "Outcome td1 = ''failure''"
    and e1: "End no_span_end 200 example_tracer example_tx =
      (enqueue example_tx td1 example_tracer, example_tx\<lparr>txData := None\<rparr>)"
    by (auto simp add: example_data_def new_TransactionData_def)
  from End_Outcome [OF b, of no_span_end 200 example_tracer]
  obtain td2 where o2: "Outcome td2 = ''failure''"
    and e2: "End no_span_end 200 example_tracer pending_tx =
      (enqueue pending_tx td2 example_tracer, pending_tx\<lparr>txData := None\<rparr>)"
    by (auto simp add: pending_data_def example_data_def new_TransactionData_def no_span_end_def)
  have "events (fst (End no_span_end 200 example_tracer example_tx)) =
      [transactionEvent inbound_valid zero_SpanID td1]"
    unfolding e1 by (simp add: enqueue_def example_tracer_def example_tx_def)
  moreover have "events (fst (End no_span_end 200 example_tracer pending_tx)) =
      [transactionEvent inbound_valid zero_SpanID td2]"
    unfolding e2 by (simp add: enqueue_def example_tracer_def pending_tx_def)
  ultimately show ?thesis using o1 o2 by blast
qed

subsection \<open>\<^verbatim>\<open>StartTransactionOptions\<close>\<close>

lemmas example_defs = example_tracer_def example_config_def example_values_def with_strategy_def
  with_sampler_def opts_of_def inbound_valid_def inbound_no_span_def no_inbound_def
  pool_Get_def new_TransactionData_def

lemmas id_defs = TraceID_Validate_ok_def TraceID_isZero_def zero_TraceID_def
  SpanID_Validate_ok_def SpanID_isZero_def zero_SpanID_def

lemma length_PutUint64: "length (PutUint64 v) = 8"
  by (simp add: PutUint64_def)

lemma start_identity_root:
  assumes "\<not> TraceID_Validate_ok (Trace (opt_TraceContext opts)) \<or> sr"
  shows "start_identity E opts sr zero_TraceContext pid r =
     (zero_TraceContext
        \<lparr>Trace := PutUint64 (shd r) @ PutUint64 (shd (stl r)),
         Span := (if SpanID_Validate_ok (TransactionID opts) then TransactionID opts
                  else PutUint64 (shd r))\<rparr>,
      pid, stl (stl r), True)"
  using assms
  by (auto simp add: start_identity_def Let_def zero_TraceContext_def zero_TraceID_def length_PutUint64)

lemma Start_traceContext:
  assumes "recording (cfg_values (instrumentationConfigInternal t))" and "active t"
    and "start_identity E opts
           (restart_link (resolve_strategy (continuationStrategy (cfg_values (instrumentationConfigInternal t)))
              (opt_TraceContext opts)) (opt_TraceContext opts) \<noteq> None)
           zero_TraceContext zero_SpanID (rand (fst (pool_Get (transactionDataPool t) new_rand)))
         = (tc, pid, r, is_root)"
  shows "traceContext (snd (StartTransactionOptions E t name ty opts new_rand now)) =
           start_sampling E (sampler (cfg_values (instrumentationConfigInternal t))) opts is_root tc \<and>
         parentID (snd (StartTransactionOptions E t name ty opts new_rand now)) = pid"
proof -
  obtain td pool where g: "pool_Get (transactionDataPool t) new_rand = (td, pool)"
    by (cases "pool_Get (transactionDataPool t) new_rand") auto
  from assms(3) have i: "start_identity E opts
           (restart_link (resolve_strategy (continuationStrategy (cfg_values (instrumentationConfigInternal t)))
              (opt_TraceContext opts)) (opt_TraceContext opts) \<noteq> None)
           zero_TraceContext zero_SpanID (rand td) = (tc, pid, r, is_root)"
    by (simp add: g)
  show ?thesis
  proof (cases "restart_link (resolve_strategy (continuationStrategy (cfg_values (instrumentationConfigInternal t)))
              (opt_TraceContext opts)) (opt_TraceContext opts)")
    case None
    with assms(1,2) i show ?thesis
      by (simp add: StartTransactionOptions_def g Let_def)
  next
    case (Some l)
    with assms(1,2) i show ?thesis
      by (simp add: StartTransactionOptions_def g Let_def)
  qed
qed

lemma Start_links:
  assumes "recording (cfg_values (instrumentationConfigInternal t))" and "active t"
  shows "\<exists>td'. txData (snd (StartTransactionOptions E t name ty opts new_rand now)) = Some td' \<and>
     links td' =
       links (fst (pool_Get (transactionDataPool t) new_rand)) @
       (case restart_link (resolve_strategy (continuationStrategy (cfg_values (instrumentationConfigInternal t)))
              (opt_TraceContext opts)) (opt_TraceContext opts) of Some l \<Rightarrow> [l] | None \<Rightarrow> []) @
       Links opts"
proof -
  obtain td pool where g: "pool_Get (transactionDataPool t) new_rand = (td, pool)"
    by (cases "pool_Get (transactionDataPool t) new_rand") auto
  show ?thesis
    using assms
    by (simp add: StartTransactionOptions_def g Let_def split: option.splits prod.splits)
qed

lemma start_identity_continue:
  assumes "TraceID_Validate_ok (Trace (opt_TraceContext opts))"
  shows "start_identity E opts False tc pid r =
     ((if TraceState_Validate_ok E (State (opt_TraceContext opts))
       then \<lambda>c. c\<lparr>State := State (opt_TraceContext opts)\<rparr> else (\<lambda>c. c))
        (tc\<lparr>Trace := Trace (opt_TraceContext opts), Options := Options (opt_TraceContext opts),
            Span := (if SpanID_Validate_ok (TransactionID opts) then TransactionID opts
                     else PutUint64 (shd r))\<rparr>),
      (if SpanID_Validate_ok (Span (opt_TraceContext opts)) then Span (opt_TraceContext opts) else pid),
      (if SpanID_Validate_ok (TransactionID opts) then r else stl r), False)"
  using assms by (simp add: start_identity_def Let_def)

lemma start_sampling_not_root:
  "Trace (start_sampling E smp opts False tc) = Trace tc \<and> Span (start_sampling E smp opts False tc) = Span tc"
  by (simp add: start_sampling_def)

text \<open>
  Claim C3. On a recording, active tracer whose continuation strategy is \<^verbatim>\<open>continue\<close>, a
  transaction started with a valid inbound trace ID has the inbound trace ID as its trace
  ID and the inbound span ID as its parent; its own span ID is the \<^verbatim>\<open>TransactionID\<close> of the
  options when that is valid, and otherwise the next number of the transaction's source of
  random numbers, written as eight bytes.
\<close>

theorem continue_reuses_trace:
  assumes "recording (cfg_values (instrumentationConfigInternal t))" and "active t"
    and "continuationStrategy (cfg_values (instrumentationConfigInternal t)) = ''continue''"
    and "TraceID_Validate_ok (Trace (opt_TraceContext opts))"
  shows "Trace (traceContext (snd (StartTransactionOptions E t name ty opts new_rand now))) =
           Trace (opt_TraceContext opts) \<and>
         parentID (snd (StartTransactionOptions E t name ty opts new_rand now)) =
           Span (opt_TraceContext opts) \<and>
         Span (traceContext (snd (StartTransactionOptions E t name ty opts new_rand now))) =
           (if SpanID_Validate_ok (TransactionID opts) then TransactionID opts
            else PutUint64 (shd (rand (fst (pool_Get (transactionDataPool t) new_rand)))))"
proof -
  let ?r = "rand (fst (pool_Get (transactionDataPool t) new_rand))"
  have l: "restart_link (resolve_strategy (continuationStrategy (cfg_values (instrumentationConfigInternal t)))
              (opt_TraceContext opts)) (opt_TraceContext opts) = None"
    by (simp add: assms(3) resolve_strategy_def restart_link_def)
  obtain tc pid r where i: "start_identity E opts False zero_TraceContext zero_SpanID ?r = (tc, pid, r, False)"
    using start_identity_continue [OF assms(4)] by blast
  have tc: "Trace tc = Trace (opt_TraceContext opts) \<and>
      Span tc = (if SpanID_Validate_ok (TransactionID opts) then TransactionID opts else PutUint64 (shd ?r))"
    using i unfolding start_identity_continue [OF assms(4)] by auto
  have pid: "pid = Span (opt_TraceContext opts)"
    using i unfolding start_identity_continue [OF assms(4)]
    by (auto simp add: SpanID_Validate_ok_def SpanID_isZero_def)
  from Start_traceContext [OF assms(1,2), of E opts new_rand tc pid r False name ty now] i l
  have "traceContext (snd (StartTransactionOptions E t name ty opts new_rand now)) =
           start_sampling E (sampler (cfg_values (instrumentationConfigInternal t))) opts False tc \<and>
         parentID (snd (StartTransactionOptions E t name ty opts new_rand now)) = pid"
    by simp
  then show ?thesis
    using tc pid by (simp add: start_sampling_not_root)
qed

theorem continue_reuses_trace_witness:
  "Trace (traceContext (snd (StartTransactionOptions example_env example_tracer ''GET /'' ''request''
      (opts_of inbound_valid) (sconst 7) 100))) = replicate 16 1 \<and>
   parentID (snd (StartTransactionOptions example_env example_tracer ''GET /'' ''request''
      (opts_of inbound_valid) (sconst 7) 100)) = replicate 8 2 \<and>
   Span (traceContext (snd (StartTransactionOptions example_env example_tracer ''GET /'' ''request''
      (opts_of inbound_valid) (sconst 7) 100))) = PutUint64 7"
  using continue_reuses_trace [where t = example_tracer and opts = "opts_of inbound_valid"
      and E = example_env and name = "''GET /''" and ty = "''request''" and new_rand = "sconst 7"
      and now = 100]
  by (simp add: example_defs id_defs)

text \<open>
  Claim C4, as stated, fails: under the strategy \<^verbatim>\<open>restart\<close>, an inbound trace context with
  a valid trace ID and a zero span ID is continued. The new transaction has the inbound
  trace ID, and no link is recorded.
\<close>

theorem restart_counterexample:
  "Trace (traceContext (snd (StartTransactionOptions example_env (with_strategy ''restart'' example_tracer)
      ''GET /'' ''request'' (opts_of inbound_no_span) (sconst 7) 100))) = Trace inbound_no_span \<and>
   (\<exists>td. txData (snd (StartTransactionOptions example_env (with_strategy ''restart'' example_tracer)
      ''GET /'' ''request'' (opts_of inbound_no_span) (sconst 7) 100)) = Some td \<and> links td = [])"
  by (simp add: StartTransactionOptions_def Let_def example_defs id_defs resolve_strategy_def
      restart_link_def start_identity_def start_sampling_def example_env_def)

text \<open>
  Claim C4, amended. On a recording, active tracer whose continuation strategy is
  \<^verbatim>\<open>restart\<close>, a transaction started with an inbound trace context whose trace ID and span
  ID are both not zero records a link that holds the inbound trace ID and span ID (after
  the links its data already had, before the links of the options), and its trace ID is
  not taken from the inbound context: it is made of the next two numbers of the
  transaction's source of random numbers.
\<close>

theorem restart_records_link:
  assumes "recording (cfg_values (instrumentationConfigInternal t))" and "active t"
    and "continuationStrategy (cfg_values (instrumentationConfigInternal t)) = ''restart''"
    and "\<not> TraceID_isZero (Trace (opt_TraceContext opts))"
    and "\<not> SpanID_isZero (Span (opt_TraceContext opts))"
  shows "(\<exists>td'. txData (snd (StartTransactionOptions E t name ty opts new_rand now)) = Some td' \<and>
            links td' =
              links (fst (pool_Get (transactionDataPool t) new_rand)) @
              [\<lparr>link_Trace = Trace (opt_TraceContext opts), link_Span = Span (opt_TraceContext opts)\<rparr>] @
              Links opts) \<and>
         Trace (traceContext (snd (StartTransactionOptions E t name ty opts new_rand now))) =
           PutUint64 (shd (rand (fst (pool_Get (transactionDataPool t) new_rand)))) @
           PutUint64 (shd (stl (rand (fst (pool_Get (transactionDataPool t) new_rand)))))"
proof -
  let ?r = "rand (fst (pool_Get (transactionDataPool t) new_rand))"
  let ?l = "\<lparr>link_Trace = Trace (opt_TraceContext opts), link_Span = Span (opt_TraceContext opts)\<rparr>"
  have l: "restart_link (resolve_strategy (continuationStrategy (cfg_values (instrumentationConfigInternal t)))
              (opt_TraceContext opts)) (opt_TraceContext opts) = Some ?l"
    using assms(4,5) by (simp add: assms(3) resolve_strategy_def restart_link_def)
  have a: "\<exists>td'. txData (snd (StartTransactionOptions E t name ty opts new_rand now)) = Some td' \<and>
            links td' = links (fst (pool_Get (transactionDataPool t) new_rand)) @ [?l] @ Links opts"
    using Start_links [OF assms(1,2), of E name ty opts new_rand now] by (simp add: l)
  have i: "start_identity E opts True zero_TraceContext zero_SpanID ?r =
     (zero_TraceContext
        \<lparr>Trace := PutUint64 (shd ?r) @ PutUint64 (shd (stl ?r)),
         Span := (if SpanID_Validate_ok (TransactionID opts) then TransactionID opts
                  else PutUint64 (shd ?r))\<rparr>,
      zero_SpanID, stl (stl ?r), True)"
    by (rule start_identity_root) simp
  have "traceContext (snd (StartTransactionOptions E t name ty opts new_rand now)) =
      start_sampling E (sampler (cfg_values (instrumentationConfigInternal t))) opts True
        (zero_TraceContext
          \<lparr>Trace := PutUint64 (shd ?r) @ PutUint64 (shd (stl ?r)),
           Span := (if SpanID_Validate_ok (TransactionID opts) then TransactionID opts
                    else PutUint64 (shd ?r))\<rparr>)"
    using Start_traceContext [OF assms(1,2), of E opts new_rand _ _ _ True name ty now] i
    by (simp add: l)
  then have b: "Trace (traceContext (snd (StartTransactionOptions E t name ty opts new_rand now))) =
           PutUint64 (shd ?r) @ PutUint64 (shd (stl ?r))"
    by (simp add: start_sampling_def Let_def split: option.splits prod.splits)
  from a b show ?thesis by blast
qed

theorem restart_records_link_witness:
  "(\<exists>td'. txData (snd (StartTransactionOptions example_env (with_strategy ''restart'' example_tracer)
        ''GET /'' ''request'' (opts_of inbound_valid) (sconst 7) 100)) = Some td' \<and>
      links td' = [\<lparr>link_Trace = replicate 16 1, link_Span = replicate 8 2\<rparr>]) \<and>
   Trace (traceContext (snd (StartTransactionOptions example_env (with_strategy ''restart'' example_tracer)
      ''GET /'' ''request'' (opts_of inbound_valid) (sconst 7) 100))) = PutUint64 7 @ PutUint64 7"
  using restart_records_link [where t = "with_strategy ''restart'' example_tracer"
      and opts = "opts_of inbound_valid"
      and E = example_env and name = "''GET /''" and ty = "''request''" and new_rand = "sconst 7"
      and now = 100]
  by (simp add: example_defs id_defs)

lemma start_sampling_unsampled:
  assumes "\<not> Sampled (s tc)"
  shows "start_sampling E (Some s) opts True tc =
     tc\<lparr>State := NewTraceState
          [\<lparr>tse_Key = elasticTracestateVendorKey,
            tse_Value = formatElasticTracestateValue E (roundSampleRate E 0)\<rparr>]\<rparr>"
  using assms by (simp add: start_sampling_def Let_def)

text \<open>
  Claim C5. On a recording, active tracer with a sampler, when the new transaction is a
  root (\<open>start_identity\<close> returns \<open>True\<close> as its last component, with the trace context
  \<open>tc\<close>) and the sampler answers \<^verbatim>\<open>Sampled = false\<close> for \<open>tc\<close>, the trace state of the
  transaction is the single entry whose value is formatted from the rounded rate 0,
  whatever rate the sampler returned; the recorded flag is not set.
\<close>

theorem unsampled_root_rate_zero:
  assumes "recording (cfg_values (instrumentationConfigInternal t))" and "active t"
    and "sampler (cfg_values (instrumentationConfigInternal t)) = Some s"
    and "start_identity E opts
           (restart_link (resolve_strategy (continuationStrategy (cfg_values (instrumentationConfigInternal t)))
              (opt_TraceContext opts)) (opt_TraceContext opts) \<noteq> None)
           zero_TraceContext zero_SpanID (rand (fst (pool_Get (transactionDataPool t) new_rand)))
         = (tc, pid, r, True)"
    and "\<not> Sampled (s tc)"
  shows "State (traceContext (snd (StartTransactionOptions E t name ty opts new_rand now))) =
           NewTraceState
             [\<lparr>tse_Key = elasticTracestateVendorKey,
               tse_Value = formatElasticTracestateValue E (roundSampleRate E 0)\<rparr>] \<and>
         Options (traceContext (snd (StartTransactionOptions E t name ty opts new_rand now))) =
           Options tc"
  using Start_traceContext [OF assms(1,2,4), of name ty now]
  by (simp add: assms(3) start_sampling_unsampled [of s tc, OF assms(5)])

lemma example_root:
  "start_identity example_env no_inbound False zero_TraceContext zero_SpanID (sconst 7) =
     (zero_TraceContext\<lparr>Trace := PutUint64 7 @ PutUint64 7, Span := PutUint64 7\<rparr>,
      zero_SpanID, sconst 7, True)"
  using start_identity_root [of no_inbound False example_env zero_SpanID "sconst 7"]
  by (simp add: example_defs id_defs zero_TraceContext_def)

theorem unsampled_root_rate_zero_witness:
  "State (traceContext (snd (StartTransactionOptions example_env (with_sampler never_sampler example_tracer)
      ''GET /'' ''request'' no_inbound (sconst 7) 100))) =
     \<lparr>entries = [\<lparr>tse_Key = ''es'', tse_Value = ''s:0''\<rparr>], haveElastic = True\<rparr> \<and>
   \<not> Recorded (Options (traceContext (snd (StartTransactionOptions example_env
      (with_sampler never_sampler example_tracer) ''GET /'' ''request'' no_inbound (sconst 7) 100))))"
  using unsampled_root_rate_zero [where t = "with_sampler never_sampler example_tracer"
      and opts = no_inbound and s = never_sampler
      and tc = "zero_TraceContext\<lparr>Trace := PutUint64 7 @ PutUint64 7, Span := PutUint64 7\<rparr>"
      and pid = zero_SpanID and r = "sconst 7"
      and E = example_env and name = "''GET /''" and ty = "''request''" and new_rand = "sconst 7"
      and now = 100] example_root
  by (simp add: example_defs never_sampler_def resolve_strategy_def restart_link_def
      NewTraceState_def elasticTracestateVendorKey_def example_env_def zero_TraceContext_def
      Recorded_def)

section \<open>Properties of the dropped-span statistics\<close>

lemma finite_dom_add: "finite (dom m) \<Longrightarrow> finite (dom (add m dst oc cnt d))"
  by (simp add: add_def Let_def)

lemma card_dom_add:
  assumes "finite (dom m)" "card (dom m) \<le> maxDroppedSpanStats"
  shows "card (dom (add m dst oc cnt d)) \<le> maxDroppedSpanStats"
proof (cases "m \<lparr>destination = dst, outcome = oc\<rparr>")
  case None
  then have "\<lparr>destination = dst, outcome = oc\<rparr> \<notin> dom m" by (simp add: domIff)
  with assms None show ?thesis
    by (auto simp add: add_def Let_def)
next
  case (Some t)
  then have "insert \<lparr>destination = dst, outcome = oc\<rparr> (dom m) = dom m" by auto
  with assms Some show ?thesis
    by (simp add: add_def Let_def)
qed

lemma add_all_inv:
  "finite (dom m) \<Longrightarrow> card (dom m) \<le> maxDroppedSpanStats \<Longrightarrow>
   finite (dom (add_all m calls)) \<and> card (dom (add_all m calls)) \<le> maxDroppedSpanStats"
proof (induction calls arbitrary: m)
  case Nil
  then show ?case by simp
next
  case (Cons c calls)
  obtain dst oc cnt d where c: "c = (dst, oc, cnt, d)" by (cases c) auto
  show ?case unfolding c add_all.simps
    by (rule Cons.IH) (simp_all add: finite_dom_add card_dom_add Cons.prems)
qed

lemma add_full_new:
  assumes "card (dom m) \<ge> maxDroppedSpanStats" "m \<lparr>destination = dst, outcome = oc\<rparr> = None"
  shows "add m dst oc cnt d = m"
  using assms by (simp add: add_def Let_def)

lemma add_present:
  assumes "m \<lparr>destination = dst, outcome = oc\<rparr> = Some t"
  shows "add m dst oc cnt d = m(\<lparr>destination = dst, outcome = oc\<rparr> \<mapsto> t\<lparr>count := count t + cnt, duration := duration t + d\<rparr>)"
  using assms by (simp add: add_def Let_def)


lemma dom_add_room:
  assumes "finite (dom m)" "card (dom m) < maxDroppedSpanStats"
  shows "dom (add m dst oc cnt d) = insert \<lparr>destination = dst, outcome = oc\<rparr> (dom m)"
  using assms by (simp add: add_def Let_def)

lemma dom_add_all_room:
  "finite (dom m) \<Longrightarrow> card (dom m) + length calls \<le> maxDroppedSpanStats \<Longrightarrow>
   dom (add_all m calls) =
     dom m \<union> call_key ` set calls"
proof (induction calls arbitrary: m)
  case Nil
  then show ?case by simp
next
  case (Cons c calls)
  obtain dst oc cnt d where c: "c = (dst, oc, cnt, d)" by (cases c) auto
  let ?k = "\<lparr>destination = dst, outcome = oc\<rparr>"
  from Cons.prems have room: "card (dom m) < maxDroppedSpanStats" by simp
  have d1: "dom (add m dst oc cnt d) = insert ?k (dom m)"
    by (rule dom_add_room [OF Cons.prems(1) room])
  have "card (insert ?k (dom m)) \<le> Suc (card (dom m))"
    using Cons.prems(1) by (simp add: card_insert_if)
  with Cons.prems have c1: "card (dom (add m dst oc cnt d)) + length calls \<le> maxDroppedSpanStats"
    by (simp add: d1)
  have "dom (add_all (add m dst oc cnt d) calls) =
      dom (add m dst oc cnt d) \<union> call_key ` set calls"
    by (rule Cons.IH [OF finite_dom_add [OF Cons.prems(1)] c1])
  then show ?case by (simp add: c d1)
qed

lemma dom_full:
  "dom (add_all Map.empty full_calls) = (\<lambda>n. \<lparr>destination = replicate n (CHR ''x''), outcome = ''success''\<rparr>) ` {0..<128}"
proof -
  have "dom (add_all Map.empty full_calls) =
     dom (Map.empty :: droppedSpanTimingsMap) \<union> call_key ` set full_calls"
    by (rule dom_add_all_room) (simp_all add: full_calls_def maxDroppedSpanStats_def)
  then show ?thesis by (simp add: full_calls_def image_image)
qed

lemma card_dom_full: "card (dom (add_all Map.empty full_calls)) = 128"
proof -
  have "inj_on (\<lambda>n. \<lparr>destination = replicate n (CHR ''x''), outcome = ''success''\<rparr>) {0..<128::nat}"
    by (rule inj_onI) (simp add: replicate_eq_replicate)
  then show ?thesis
    unfolding dom_full by (simp add: card_image)
qed

lemma full_new: "add_all Map.empty full_calls \<lparr>destination = ''y'', outcome = ''success''\<rparr> = None"
proof -
  have "\<lparr>destination = ''y'', outcome = ''success''\<rparr> \<notin> dom (add_all Map.empty full_calls)"
    unfolding dom_full by (auto simp add: Cons_replicate_eq) 
  then show ?thesis by (simp add: domIff)
qed

text \<open>
  Claim C7. Whatever calls of \<^verbatim>\<open>add\<close> are made on a map that holds at most
  \<^verbatim>\<open>maxDroppedSpanStats\<close> = 128 keys (the empty map of a new or recycled transaction in
  particular), the map never holds more than 128 keys. With 128 keys in the map, a call for
  a key that is not in it returns the map as it was; a call for a key that is in the map
  adds to its count and to its total duration (both modulo \<open>2 ^ 64\<close>), whatever the size
  of the map.
\<close>

theorem droppedSpanTimingsMap_cap:
  "maxDroppedSpanStats = 128 \<and>
   (finite (dom ma) \<and> card (dom ma) \<le> maxDroppedSpanStats \<longrightarrow>
      card (dom (add_all ma calls)) \<le> maxDroppedSpanStats) \<and>
   (card (dom m) = maxDroppedSpanStats \<and> m \<lparr>destination = dst, outcome = oc\<rparr> = None \<longrightarrow>
      add m dst oc cnt d = m) \<and>
   (m' \<lparr>destination = dst, outcome = oc\<rparr> = Some t \<longrightarrow>
      add m' dst oc cnt d =
        m'(\<lparr>destination = dst, outcome = oc\<rparr> \<mapsto>
            t\<lparr>count := count t + cnt, duration := duration t + d\<rparr>))"
  using add_all_inv [of ma calls] add_full_new [of m dst oc cnt d] add_present [of m' dst oc t cnt d]
  by (simp add: maxDroppedSpanStats_def)

theorem droppedSpanTimingsMap_cap_witness:
  "card (dom (add_all Map.empty (full_calls @ [(''y'', ''success'', 1, 1)]))) \<le> 128 \<and>
   add (add_all Map.empty full_calls) ''y'' ''success'' 5 7 = add_all Map.empty full_calls \<and>
   add (Map.empty(\<lparr>destination = ''y'', outcome = ''success''\<rparr> \<mapsto> \<lparr>duration = 10, count = 1\<rparr>))
       ''y'' ''success'' 5 7 =
     Map.empty(\<lparr>destination = ''y'', outcome = ''success''\<rparr> \<mapsto> \<lparr>duration = 17, count = 6\<rparr>)"
  using droppedSpanTimingsMap_cap [of Map.empty "full_calls @ [(''y'', ''success'', 1, 1)]"
      "add_all Map.empty full_calls" "''y''" "''success''" 5 7
      "Map.empty(\<lparr>destination = ''y'', outcome = ''success''\<rparr> \<mapsto> \<lparr>duration = 10, count = 1\<rparr>)"
      "\<lparr>duration = 10, count = 1\<rparr>"]
    card_dom_full full_new
  by (simp add: maxDroppedSpanStats_def)

end
